theory Spec2Isabelle
  imports Complex_Main "HOL-Library.Multiset"
begin

section \<open>Data model (types.ts)\<close>

text \<open>
  A JavaScript string is a sequence of UTF-16 code units: \<open>jsstring\<close> is a list of
  code units, each a natural number, and \<open>js\<close> turns a literal of ASCII characters into
  one. A value of type \<open>string | null\<close> is a \<open>jsstring option\<close>; its truthiness (\<open>!!x\<close>,
  \<open>x || y\<close>, \<open>if (x)\<close>) is \<open>truthy\<close>: present and not the empty string. Numbers are only
  stored, passed on and compared with \<open>null\<close> by the code modelled here, so they are
  \<open>real\<close>; counters and calendar fields are \<open>nat\<close>. A value of type \<open>any\<close> read from
  the form state is a \<open>jsval\<close>.
\<close>

type_synonym jsstring = "nat list"

definition js :: "string \<Rightarrow> jsstring" where
  "js s = map of_char s"

text \<open>
  A property that the code compares with \<open>null\<close> or tests for truthiness, and that may
  also be absent at run time: absent (\<open>undefined\<close>), \<open>null\<close>, or a value.
\<close>

datatype 'a nullable = Undef | Nul | Val 'a

datatype jsval = JUndefined | JNull | JStr jsstring | JNum real | JObject

datatype UserRole = role_admin | role_user

datatype claim_status = pending | approved | rejected

record User =
  u_id :: jsstring
  username :: jsstring
  password :: jsstring
  chineseName :: jsstring
  role :: UserRole
  u_createdAt :: nat

datatype field_type = ft_text | ft_number | ft_select | ft_email | ft_file

datatype field_section = sec_basic | sec_financial | sec_client | sec_review | sec_evidence

record FormFieldConfig =
  field_id :: jsstring
  label :: jsstring
  field_type :: field_type
  field_section :: field_section
  required :: bool
  options :: "jsstring list option"
  systemKey :: "jsstring option"
  isSystem :: "bool option"

text \<open>
  The result of one check. \<open>verified\<close> is only ever tested for truthiness, and the
  \<open>bool\<close> stands for that. \<open>extractedAmount\<close> is compared with \<open>null\<close> and
  \<open>extractedText\<close> is tested for truthiness; both are copied from the decoded answer of
  the collaborator as they are, so each may be absent, \<open>null\<close> or a value.
\<close>

record SingleCheckResult =
  verified :: bool
  extractedAmount :: "real nullable"
  extractedText :: "jsstring nullable"
  reason :: jsstring

record AuditResult =
  usdCheck :: SingleCheckResult
  cnyCheck :: SingleCheckResult
  orderCheck :: SingleCheckResult
  timestamp :: nat

record ReimbursementItem =
  id' :: jsstring
  userId :: jsstring
  userName :: "jsstring option"
  autoId :: jsstring
  reimburser :: jsstring
  projectName :: jsstring
  storeName :: jsstring
  companySKU :: jsstring
  model :: jsstring
  orderId :: jsstring
  orderAmount :: real
  commission :: real
  currency :: jsstring
  paymentMethod :: jsstring
  reportAmountUSD :: real
  reimburseAmountCNY :: real
  clientPPAccount :: jsstring
  clientEmail :: jsstring
  itemReason :: jsstring
  source :: jsstring
  note' :: jsstring
  exchangeRate :: real
  reviewID :: jsstring
  reviewScreenshot :: "jsstring option"
  isTransferCommission :: jsstring
  isReviewDropped :: jsstring
  communicationChannel :: jsstring
  paymentCardLastDigits :: jsstring
  ppTransferScreenshotPrincipal :: "jsstring option"
  creditCardDeductionScreenshotPrincipal :: "jsstring option"
  ppTransferScreenshotCommission :: "jsstring option"
  creditCardDeductionScreenshotCommission :: "jsstring option"
  ppDeductionScreenshotTax :: "jsstring option"
  orderIdScreenshot :: "jsstring option"
  chatScreenshot :: "jsstring option"
  reviewLink :: jsstring
  clientProfile :: jsstring
  customFields :: "(jsstring \<rightharpoonup> jsval) option"
  status :: claim_status
  auditResult :: "AuditResult option"
  createdAt :: nat

fun truthy :: "jsstring option \<Rightarrow> bool" where
  "truthy None = False"
| "truthy (Some s) = (s \<noteq> [])"

fun truthy_text :: "jsstring nullable \<Rightarrow> bool" where
  "truthy_text Undef = False"
| "truthy_text Nul = False"
| "truthy_text (Val s) = (s \<noteq> [])"

definition startsWith :: "jsstring \<Rightarrow> jsstring \<Rightarrow> bool" where
  "startsWith s p = (take (length p) s = p)"

section \<open>Image verification (services/geminiService.ts)\<close>

definition is_lower_az :: "nat \<Rightarrow> bool" where
  "is_lower_az c = (97 \<le> c \<and> c \<le> 122)"

text \<open>\<open>base64.replace(/^data:image\/[a-z]+;base64,/, "")\<close>\<close>

definition cleanBase64 :: "jsstring \<Rightarrow> jsstring" where
  "cleanBase64 base64 =
     (if base64 = [] then []
      else if startsWith base64 (js ''data:image/'') then
        (let rest = drop 11 base64;
             letters = takeWhile is_lower_az rest;
             tail = dropWhile is_lower_az rest
         in if letters \<noteq> [] \<and> startsWith tail (js '';base64,'') then drop 8 tail else base64)
      else base64)"

text \<open>
  A thrown value, with its \<open>message\<close> property when it has one. The collaborator is the
  \<open>generateContent\<close> call of a client built from an API key: it either rejects with an
  error or answers with a response whose \<open>text\<close> may be absent. The request carries what
  the prompt and the image part are built from.
\<close>

datatype js_error = Error "jsstring option"

datatype ai_request =
    AmountPrompt real jsstring jsstring
  | TextPrompt jsstring jsstring

type_synonym GoogleGenAI = "ai_request \<Rightarrow> js_error + jsstring option"

record amount_json =
  aj_matches :: bool
  aj_extractedAmount :: "real nullable"
  aj_reasoning :: jsstring

record text_json =
  tj_matches :: bool
  tj_foundText :: "jsstring nullable"
  tj_reasoning :: jsstring

text \<open>
  What the code takes from its surroundings: the two environment variables read by
  \<open>getApiKey\<close>, the client constructor, \<open>JSON.parse\<close> followed by the property reads
  (which throws on malformed text, and gives \<open>undefined\<close> for a key that the answer
  does not have), and \<open>Date.now()\<close>.
\<close>

record runtime =
  process_env_API_KEY :: "jsstring option"
  import_meta_env_VITE_API_KEY :: "jsstring option"
  newGoogleGenAI :: "jsstring \<Rightarrow> GoogleGenAI"
  JSON_parse_amount :: "jsstring \<Rightarrow> js_error + amount_json"
  JSON_parse_text :: "jsstring \<Rightarrow> js_error + text_json"
  Date_now :: nat

definition getApiKey :: "runtime \<Rightarrow> jsstring" where
  "getApiKey rt =
     (case process_env_API_KEY rt of
        Some k \<Rightarrow> if k \<noteq> [] then k
                  else (case import_meta_env_VITE_API_KEY rt of
                          Some v \<Rightarrow> if v \<noteq> [] then v else []
                        | None \<Rightarrow> [])
      | None \<Rightarrow> (case import_meta_env_VITE_API_KEY rt of
                   Some v \<Rightarrow> if v \<noteq> [] then v else []
                 | None \<Rightarrow> []))"

text \<open>\<open>error.message || "Unknown error"\<close>\<close>

fun message_or_unknown :: "js_error \<Rightarrow> jsstring" where
  "message_or_unknown (Error None) = js ''Unknown error''"
| "message_or_unknown (Error (Some m)) = (if m = [] then js ''Unknown error'' else m)"

text \<open>The body of the \<open>try\<close> block of \<open>performAmountCheck\<close>: \<open>Inl\<close> is a thrown error.\<close>

definition performAmountCheck_try ::
  "runtime \<Rightarrow> GoogleGenAI \<Rightarrow> real \<Rightarrow> jsstring \<Rightarrow> jsstring \<Rightarrow> js_error + SingleCheckResult" where
  "performAmountCheck_try rt ai amount imageBase64 currencyContext =
     (case ai (AmountPrompt amount currencyContext (cleanBase64 imageBase64)) of
        Inl e \<Rightarrow> Inl e
      | Inr resultText \<Rightarrow>
          (case resultText of
             None \<Rightarrow> Inl (Error (Some (js ''Empty AI response'')))
           | Some t \<Rightarrow>
               if t = [] then Inl (Error (Some (js ''Empty AI response'')))
               else (case JSON_parse_amount rt t of
                       Inl e \<Rightarrow> Inl e
                     | Inr d \<Rightarrow>
                         Inr \<lparr>verified = aj_matches d,
                              extractedAmount = aj_extractedAmount d,
                              extractedText = Undef,
                              reason = aj_reasoning d\<rparr>)))"

definition performAmountCheck ::
  "runtime \<Rightarrow> GoogleGenAI \<Rightarrow> real \<Rightarrow> jsstring option \<Rightarrow> jsstring \<Rightarrow> js_error + SingleCheckResult" where
  "performAmountCheck rt ai amount imageBase64 currencyContext =
     (case imageBase64 of
        None \<Rightarrow>
          Inr \<lparr>verified = False, extractedAmount = Nul, extractedText = Undef,
               reason = js ''No screenshot provided''\<rparr>
      | Some img \<Rightarrow>
          if img = [] then
            Inr \<lparr>verified = False, extractedAmount = Nul, extractedText = Undef,
                 reason = js ''No screenshot provided''\<rparr>
          else
            (case performAmountCheck_try rt ai amount img currencyContext of
               Inr r \<Rightarrow> Inr r
             | Inl error \<Rightarrow>
                 Inr \<lparr>verified = False, extractedAmount = Nul, extractedText = Undef,
                      reason = js ''AI Error: '' @ message_or_unknown error\<rparr>))"

definition performTextCheck_try ::
  "runtime \<Rightarrow> GoogleGenAI \<Rightarrow> jsstring \<Rightarrow> jsstring \<Rightarrow> jsstring \<Rightarrow> js_error + SingleCheckResult" where
  "performTextCheck_try rt ai targetText imageBase64 contextLabel =
     (case ai (TextPrompt targetText (cleanBase64 imageBase64)) of
        Inl e \<Rightarrow> Inl e
      | Inr resultText \<Rightarrow>
          (case resultText of
             None \<Rightarrow> Inl (Error (Some (js ''Empty AI response'')))
           | Some t \<Rightarrow>
               if t = [] then Inl (Error (Some (js ''Empty AI response'')))
               else (case JSON_parse_text rt t of
                       Inl e \<Rightarrow> Inl e
                     | Inr d \<Rightarrow>
                         Inr \<lparr>verified = tj_matches d,
                              extractedAmount = Nul,
                              extractedText = tj_foundText d,
                              reason = tj_reasoning d\<rparr>)))"

definition performTextCheck ::
  "runtime \<Rightarrow> GoogleGenAI \<Rightarrow> jsstring \<Rightarrow> jsstring option \<Rightarrow> jsstring \<Rightarrow> js_error + SingleCheckResult" where
  "performTextCheck rt ai targetText imageBase64 contextLabel =
     (if \<not> truthy imageBase64 \<or> targetText = [] then
        Inr \<lparr>verified = False, extractedAmount = Nul, extractedText = Undef,
             reason = js ''No screenshot or Order ID provided''\<rparr>
      else
        (case imageBase64 of
           None \<Rightarrow>
             Inr \<lparr>verified = False, extractedAmount = Nul, extractedText = Undef,
                  reason = js ''No screenshot or Order ID provided''\<rparr>
         | Some img \<Rightarrow>
             (case performTextCheck_try rt ai targetText img contextLabel of
                Inr r \<Rightarrow> Inr r
              | Inl error \<Rightarrow>
                  Inr \<lparr>verified = False, extractedAmount = Nul, extractedText = Undef,
                       reason = js ''AI Error: '' @ message_or_unknown error\<rparr>)))"

text \<open>\<open>Promise.all\<close> of three promises: it rejects as soon as one of them rejects.\<close>

definition Promise_all3 ::
  "js_error + 'a \<Rightarrow> js_error + 'a \<Rightarrow> js_error + 'a \<Rightarrow> js_error + ('a \<times> 'a \<times> 'a)" where
  "Promise_all3 p1 p2 p3 =
     (case p1 of
        Inl e \<Rightarrow> Inl e
      | Inr r1 \<Rightarrow>
          (case p2 of
             Inl e \<Rightarrow> Inl e
           | Inr r2 \<Rightarrow>
               (case p3 of
                  Inl e \<Rightarrow> Inl e
                | Inr r3 \<Rightarrow> Inr (r1, r2, r3))))"

definition performFullAudit ::
  "runtime \<Rightarrow> real \<Rightarrow> jsstring option \<Rightarrow> real \<Rightarrow> jsstring option \<Rightarrow> jsstring \<Rightarrow> jsstring option
     \<Rightarrow> jsstring option \<Rightarrow> js_error + AuditResult" where
  "performFullAudit rt amountUSD screenshotUSD amountCNY screenshotCNY orderId_arg screenshotOrder
       explicitApiKey =
     (let apiKey = (case explicitApiKey of
                      Some k \<Rightarrow> if k \<noteq> [] then k else getApiKey rt
                    | None \<Rightarrow> getApiKey rt)
      in if apiKey = [] then
           (let err = \<lparr>verified = False, extractedAmount = Nul, extractedText = Undef,
                       reason = js ''Missing API Key''\<rparr>
            in Inr \<lparr>usdCheck = err, cnyCheck = err, orderCheck = err, timestamp = Date_now rt\<rparr>)
         else
           (let ai = newGoogleGenAI rt apiKey;
                orderTargetImage = (if truthy screenshotOrder then screenshotOrder else screenshotUSD);
                orderContext = (if truthy screenshotOrder then js ''Dedicated Order Screenshot''
                                else js ''USD Payment Notes'')
            in case Promise_all3
                      (performAmountCheck rt ai amountUSD screenshotUSD (js ''USD (PayPal Principal)''))
                      (performAmountCheck rt ai amountCNY screenshotCNY (js ''CNY (Credit Card Deduction)''))
                      (performTextCheck rt ai orderId_arg orderTargetImage
                         ((js ''Order ID Check ('') @ orderContext @ js '')''))
               of Inl e \<Rightarrow> Inl e
                | Inr (usdResult, cnyResult, orderResult) \<Rightarrow>
                    Inr \<lparr>usdCheck = usdResult, cnyCheck = cnyResult, orderCheck = orderResult,
                         timestamp = Date_now rt\<rparr>))"

section \<open>Audit Resolver (components/AuditDashboard.tsx)\<close>

datatype audit_error = NoScreenshots | Rethrown js_error

definition runAuditForItem ::
  "runtime \<Rightarrow> ReimbursementItem \<Rightarrow> jsstring option \<Rightarrow> audit_error + ReimbursementItem" where
  "runAuditForItem rt item explicitKey =
     (let hasMainProof = truthy (ppTransferScreenshotPrincipal item);
          hasOrderProof = truthy (orderIdScreenshot item)
      in if \<not> hasMainProof \<and> \<not> hasOrderProof then Inl NoScreenshots
         else
           (case performFullAudit rt
                   (reportAmountUSD item)
                   (ppTransferScreenshotPrincipal item)
                   (reimburseAmountCNY item)
                   (creditCardDeductionScreenshotPrincipal item)
                   (orderId item)
                   (if truthy (orderIdScreenshot item) then orderIdScreenshot item else None)
                   explicitKey
            of Inl e \<Rightarrow> Inl (Rethrown e)
             | Inr result \<Rightarrow>
                 (let usdOk = verified (usdCheck result);
                      cnyOk = verified (cnyCheck result);
                      orderOk = verified (orderCheck result);
                      cnyAttempted = truthy (creditCardDeductionScreenshotPrincipal item);
                      newStatus =
                        (if \<not> usdOk \<and> extractedAmount (usdCheck result) \<noteq> Nul then rejected
                         else if \<not> orderOk \<and> truthy_text (extractedText (orderCheck result))
                           then rejected
                         else if cnyAttempted \<and> \<not> cnyOk \<and> extractedAmount (cnyCheck result) \<noteq> Nul
                           then rejected
                         else if usdOk \<and> orderOk \<and> (\<not> cnyAttempted \<or> cnyOk) then approved
                         else pending)
                  in Inr (item\<lparr>auditResult := Some result, status := newStatus\<rparr>))))"

text \<open>\<open>handleAuditUpdate\<close> of App.tsx, on the list of claims held in memory.\<close>

definition handleAuditUpdate :: "ReimbursementItem \<Rightarrow> ReimbursementItem list \<Rightarrow> ReimbursementItem list" where
  "handleAuditUpdate updatedItem prev =
     map (\<lambda>item. if id' item = id' updatedItem then updatedItem else item) prev"

text \<open>
  \<open>String.prototype.trim\<close> removes the white space and the line terminators of
  ECMAScript from both ends: TAB, LF, VT, FF, CR, SPACE, NBSP, U+1680, U+2000 to U+200A,
  U+2028, U+2029, U+202F, U+205F, U+3000 and U+FEFF.
\<close>

definition is_ws :: "nat \<Rightarrow> bool" where
  "is_ws c =
     (c \<in> {0x09, 0x0A, 0x0B, 0x0C, 0x0D, 0x20, 0xA0, 0x1680, 0x2028, 0x2029, 0x202F, 0x205F,
            0x3000, 0xFEFF}
      \<or> (0x2000 \<le> c \<and> c \<le> 0x200A))"

definition trim :: "jsstring \<Rightarrow> jsstring" where
  "trim s = rev (dropWhile is_ws (rev (dropWhile is_ws s)))"

text \<open>
  \<open>handleVerifySingle\<close>: \<open>promptInput\<close> is what the administrator types when asked for a
  key (\<open>None\<close> when the dialog is cancelled). The result is the list of claims in memory
  afterwards; a failed audit only raises an alert.
\<close>

definition handleVerifySingle ::
  "runtime \<Rightarrow> User \<Rightarrow> jsstring option \<Rightarrow> ReimbursementItem list \<Rightarrow> ReimbursementItem
     \<Rightarrow> ReimbursementItem list" where
  "handleVerifySingle rt currentUser promptInput reimbursements item =
     (if role currentUser \<noteq> role_admin then reimbursements
      else
        (let key = (if getApiKey rt \<noteq> [] then Some (getApiKey rt)
                    else if truthy promptInput then map_option trim promptInput
                    else None)
         in case key of
              None \<Rightarrow> reimbursements
            | Some k \<Rightarrow>
                (case runAuditForItem rt item (Some k) of
                   Inr updated \<Rightarrow> handleAuditUpdate updated reimbursements
                 | Inl e \<Rightarrow> reimbursements)))"

section \<open>Claim store and identifier generation (services/storageService.ts)\<close>

text \<open>
  The store is an external service. A row of its \<open>reimbursements\<close> table holds the
  claim as a document next to the columns \<open>id\<close>, \<open>user_id\<close> and \<open>created_at\<close>. The client
  builds a query from the builder calls and sends it as one request; the service filters,
  then orders, then limits. Awaiting the query either throws, or yields an \<open>error\<close>, or
  yields \<open>data\<close>.
\<close>

record Row =
  row_id :: jsstring
  row_user_id :: jsstring
  row_data :: ReimbursementItem
  row_created_at :: nat

record PostgrestQuery =
  order_created_at_descending :: bool
  limit :: "nat option"
  eq_user_id :: "jsstring option"

record PostgrestResponse =
  data :: "Row list option"
  error :: "jsstring option"

datatype supabase = Unreachable js_error | Failing jsstring | Table "Row list"

definition run_query :: "Row list \<Rightarrow> PostgrestQuery \<Rightarrow> Row list" where
  "run_query table q =
     (let filtered = (case eq_user_id q of
                        None \<Rightarrow> table
                      | Some u \<Rightarrow> filter (\<lambda>r. row_user_id r = u) table);
          ordered = (if order_created_at_descending q
                     then rev (sort_key row_created_at filtered) else filtered)
      in case limit q of None \<Rightarrow> ordered | Some n \<Rightarrow> take n ordered)"

fun await_query :: "supabase \<Rightarrow> PostgrestQuery \<Rightarrow> js_error + PostgrestResponse" where
  "await_query (Unreachable e) q = Inl e"
| "await_query (Failing m) q = Inr \<lparr>data = None, error = Some m\<rparr>"
| "await_query (Table rows) q = Inr \<lparr>data = Some (run_query rows q), error = None\<rparr>"

definition getReimbursements :: "supabase \<Rightarrow> User \<Rightarrow> ReimbursementItem list" where
  "getReimbursements db currentUser =
     (let query = \<lparr>order_created_at_descending = True, limit = Some 500, eq_user_id = None\<rparr>;
          query = (if role currentUser \<noteq> role_admin
                   then query\<lparr>eq_user_id := Some (u_id currentUser)\<rparr> else query)
      in case await_query db query of
           Inl e \<Rightarrow> []
         | Inr response \<Rightarrow>
             (case error response of
                Some e \<Rightarrow> []
              | None \<Rightarrow>
                  map (\<lambda>row. (row_data row)\<lparr>id' := row_id row\<rparr>)
                    (case data response of None \<Rightarrow> [] | Some rows \<Rightarrow> rows)))"

definition digit_char :: "nat \<Rightarrow> nat" where
  "digit_char d = 48 + d"

text \<open>\<open>String(n)\<close> of a non-negative integer: its decimal digits.\<close>

fun String_nat :: "nat \<Rightarrow> jsstring" where
  "String_nat n = (if n < 10 then [digit_char n] else String_nat (n div 10) @ [digit_char (n mod 10)])"

declare String_nat.simps [simp del]

text \<open>
  \<open>s.padStart(targetLength, padString)\<close>: the pad string is repeated and cut to the
  missing length; nothing is added when the string is long enough or the pad is empty.
\<close>

definition padStart :: "jsstring \<Rightarrow> nat \<Rightarrow> jsstring \<Rightarrow> jsstring" where
  "padStart s targetLength padString =
     (if targetLength \<le> length s \<or> padString = [] then s
      else take (targetLength - length s)
             (concat (replicate (targetLength - length s) padString)) @ s)"

text \<open>
  \<open>new Date()\<close> read through \<open>getFullYear\<close>, \<open>getMonth\<close> (from 0) and \<open>getDate\<close>, and the
  outcome of the call of the transliteration library \<open>pinyin\<close>: it throws, or returns
  something that is not an array, or returns an array of strings. The built-in
  \<open>String.prototype.toUpperCase\<close> is taken from the runtime as it is: the functions
  below receive it as \<open>toUpperCase\<close>.
\<close>

record LocalDate =
  getFullYear :: nat
  getMonth :: nat
  getDate :: nat

datatype pinyin_result = PinyinThrows | PinyinNoArray | PinyinArray "jsstring list"

definition initialsOf ::
  "(jsstring \<Rightarrow> jsstring) \<Rightarrow> (jsstring \<Rightarrow> pinyin_result) \<Rightarrow> User \<Rightarrow> jsstring" where
  "initialsOf toUpperCase pinyin u =
     (let initials = take 5 (toUpperCase (username u))
      in if chineseName u \<noteq> [] then
           (case pinyin (chineseName u) of
              PinyinArray p \<Rightarrow> toUpperCase (concat p)
            | PinyinNoArray \<Rightarrow> initials
            | PinyinThrows \<Rightarrow> initials)
         else initials)"

definition dateStr :: "LocalDate \<Rightarrow> jsstring" where
  "dateStr now =
     (let year = getFullYear now;
          month = padStart (String_nat (getMonth now + 1)) 2 (js ''0'');
          day = padStart (String_nat (getDate now)) 2 (js ''0'')
      in String_nat year @ month @ day)"

definition todayUserItems :: "jsstring \<Rightarrow> ReimbursementItem list \<Rightarrow> ReimbursementItem list" where
  "todayUserItems prefix allItems =
     filter (\<lambda>i. autoId i \<noteq> [] \<and> startsWith (autoId i) prefix) allItems"

definition generateReimbursementId ::
  "(jsstring \<Rightarrow> jsstring) \<Rightarrow> (jsstring \<Rightarrow> pinyin_result) \<Rightarrow> LocalDate \<Rightarrow> User
     \<Rightarrow> ReimbursementItem list \<Rightarrow> jsstring" where
  "generateReimbursementId toUpperCase pinyin now u allItems =
     (let initials = initialsOf toUpperCase pinyin u;
          prefix = initials @ dateStr now;
          sequence = padStart (String_nat (length (todayUserItems prefix allItems) + 1)) 3 (js ''0'')
      in prefix @ sequence)"

section \<open>Submission (components/ReimbursementForm.tsx, components/ReimbursementList.tsx)\<close>

text \<open>
  The form state is a \<open>Partial<ReimbursementItem>\<close>. The properties the code reads by name
  have their declared type \<open>string | undefined\<close>; all others are only read through
  \<open>(formData as any)[key]\<close> and are kept as a map from property names to values.
\<close>

record FormData =
  fd_orderId :: "jsstring option"
  fd_itemReason :: "jsstring option"
  fd_storeName :: "jsstring option"
  fd_companySKU :: "jsstring option"
  fd_other :: "jsstring \<rightharpoonup> jsval"
  fd_customFields :: "(jsstring \<rightharpoonup> jsval) option"

fun opt_str :: "jsstring option \<Rightarrow> jsval" where
  "opt_str None = JUndefined"
| "opt_str (Some s) = JStr s"

definition getProp :: "FormData \<Rightarrow> jsstring \<Rightarrow> jsval" where
  "getProp formData k =
     (if k = js ''orderId'' then opt_str (fd_orderId formData)
      else if k = js ''itemReason'' then opt_str (fd_itemReason formData)
      else if k = js ''storeName'' then opt_str (fd_storeName formData)
      else if k = js ''companySKU'' then opt_str (fd_companySKU formData)
      else if k = js ''customFields'' then
        (case fd_customFields formData of None \<Rightarrow> JUndefined | Some cf \<Rightarrow> JObject)
      else (case fd_other formData k of None \<Rightarrow> JUndefined | Some v \<Rightarrow> v))"

definition customValue :: "FormData \<Rightarrow> jsstring \<Rightarrow> jsval" where
  "customValue formData k =
     (case fd_customFields formData of
        None \<Rightarrow> JUndefined
      | Some cf \<Rightarrow> (case cf k of None \<Rightarrow> JUndefined | Some v \<Rightarrow> v))"

definition getValue :: "FormData \<Rightarrow> FormFieldConfig \<Rightarrow> jsval" where
  "getValue formData field =
     (case systemKey field of
        Some k \<Rightarrow> if k \<noteq> [] then getProp formData k else customValue formData (field_id field)
      | None \<Rightarrow> customValue formData (field_id field))"

text \<open>The validation loop of \<open>handleSubmit\<close>: \<open>forEach\<close> with \<open>push\<close>.\<close>

definition missingFields :: "FormFieldConfig list \<Rightarrow> FormData \<Rightarrow> jsstring list" where
  "missingFields formConfig formData =
     foldl (\<lambda>acc field.
              if required field then
                (let val = getValue formData field
                 in if val = JNull \<or> val = JUndefined \<or> val = JStr [] then acc @ [label field]
                    else acc)
              else acc) [] formConfig"

text \<open>\<open>String(str || '').trim()\<close>\<close>

definition normalize_str :: "jsstring option \<Rightarrow> jsstring" where
  "normalize_str str = trim (case str of None \<Rightarrow> [] | Some s \<Rightarrow> if s \<noteq> [] then s else [])"

text \<open>\<open>initialData?.id || ''\<close>\<close>

definition selfId :: "ReimbursementItem option \<Rightarrow> jsstring" where
  "selfId initialData = (case initialData of None \<Rightarrow> [] | Some d \<Rightarrow> if id' d \<noteq> [] then id' d else [])"

text \<open>The duplicate check of \<open>handleSubmit\<close>.\<close>

definition findDuplicate ::
  "FormData \<Rightarrow> ReimbursementItem option \<Rightarrow> ReimbursementItem list \<Rightarrow> ReimbursementItem option" where
  "findDuplicate formData initialData items =
     (let currentOrderId = normalize_str (fd_orderId formData);
          currentReason = normalize_str (fd_itemReason formData)
      in if currentOrderId \<noteq> [] \<and> currentReason \<noteq> [] then
           find (\<lambda>i. id' i \<noteq> selfId initialData \<and>
                      normalize_str (Some (orderId i)) = currentOrderId \<and>
                      normalize_str (Some (itemReason i)) = currentReason) items
         else None)"

datatype submit_error =
    MissingRequiredFields "jsstring list"
  | MissingQuickInfo
  | DuplicateClaim jsstring jsstring

text \<open>
  What an accepted submission goes on to do: call \<open>onUpdate\<close> with the edited claim, or
  call \<open>onSubmit\<close> with a new claim that carries the generated identifier.
\<close>

datatype submit_action = CallOnUpdate | CallOnSubmit jsstring

definition handleSubmit ::
  "(jsstring \<Rightarrow> jsstring) \<Rightarrow> (jsstring \<Rightarrow> pinyin_result) \<Rightarrow> LocalDate
     \<Rightarrow> FormFieldConfig list \<Rightarrow> User \<Rightarrow> ReimbursementItem list
     \<Rightarrow> ReimbursementItem option \<Rightarrow> bool \<Rightarrow> FormData \<Rightarrow> submit_error + submit_action" where
  "handleSubmit toUpperCase pinyin now formConfig currentUser items initialData hasOnUpdate formData =
     (let missing = missingFields formConfig formData
      in if length missing > 0 then Inl (MissingRequiredFields missing)
         else
           (case findDuplicate formData initialData items of
              Some duplicate \<Rightarrow>
                Inl (DuplicateClaim (normalize_str (fd_orderId formData)) (normalize_str (fd_itemReason formData)))
            | None \<Rightarrow>
                if initialData \<noteq> None \<and> hasOnUpdate then Inr CallOnUpdate
                else Inr (CallOnSubmit (generateReimbursementId toUpperCase pinyin now currentUser items))))"

definition submitQuickAdd ::
  "(jsstring \<Rightarrow> jsstring) \<Rightarrow> (jsstring \<Rightarrow> pinyin_result) \<Rightarrow> LocalDate \<Rightarrow> User \<Rightarrow> ReimbursementItem list \<Rightarrow> FormData
     \<Rightarrow> submit_error + submit_action" where
  "submitQuickAdd toUpperCase pinyin now currentUser items newItem =
     (if \<not> truthy (fd_storeName newItem) \<or> \<not> truthy (fd_orderId newItem)
         \<or> \<not> truthy (fd_companySKU newItem)
      then Inl MissingQuickInfo
      else
        (let orderIdToCheck = normalize_str (fd_orderId newItem);
             reasonToCheck = normalize_str (fd_itemReason newItem);
             duplicate = (if orderIdToCheck \<noteq> [] \<and> reasonToCheck \<noteq> [] then
                            find (\<lambda>i. normalize_str (Some (orderId i)) = orderIdToCheck \<and>
                                       normalize_str (Some (itemReason i)) = reasonToCheck) items
                          else None)
         in case duplicate of
              Some d \<Rightarrow> Inl (DuplicateClaim orderIdToCheck reasonToCheck)
            | None \<Rightarrow> Inr (CallOnSubmit (generateReimbursementId toUpperCase pinyin now currentUser items))))"

section \<open>The stated behaviour, and fixed inputs\<close>

text \<open>
  The status policy as the specification words it: a list of rules, each a condition and
  the status it gives, of which the first whose condition holds decides; when none holds
  the status is \<open>pending\<close>. An amount is non-null when it is anything but \<open>null\<close>; a
  text is non-empty when it is a string with at least one code unit; an image is supplied
  when the slot holds a non-empty string.
\<close>

definition non_null :: "'a nullable \<Rightarrow> bool" where
  "non_null x = (x \<noteq> Nul)"

definition non_empty_text :: "jsstring nullable \<Rightarrow> bool" where
  "non_empty_text x = (case x of Val s \<Rightarrow> 0 < length s | Nul \<Rightarrow> False | Undef \<Rightarrow> False)"

definition image_supplied :: "jsstring option \<Rightarrow> bool" where
  "image_supplied slot = (case slot of Some s \<Rightarrow> 0 < length s | None \<Rightarrow> False)"

fun first_match :: "(bool \<times> claim_status) list \<Rightarrow> claim_status" where
  "first_match [] = pending"
| "first_match ((c, s) # rules) = (if c then s else first_match rules)"

definition spec_status ::
  "SingleCheckResult \<Rightarrow> SingleCheckResult \<Rightarrow> SingleCheckResult \<Rightarrow> bool \<Rightarrow> claim_status" where
  "spec_status usd cny ord cnyImageSupplied =
     first_match
       [(\<not> verified usd \<and> non_null (extractedAmount usd), rejected),
        (\<not> verified ord \<and> non_empty_text (extractedText ord), rejected),
        (cnyImageSupplied \<and> \<not> verified cny \<and> non_null (extractedAmount cny), rejected),
        (verified usd \<and> verified ord \<and> (\<not> cnyImageSupplied \<or> verified cny), approved)]"

definition example_item :: ReimbursementItem where
  "example_item =
     \<lparr>id' = js ''c1'', userId = js ''u1'', userName = Some (js ''zhangsan''), autoId = js ''ZS20240315001'',
      reimburser = js ''zhangsan'', projectName = [], storeName = js ''Anilivo-US'',
      companySKU = js ''SKU-001'', model = [], orderId = js ''ORD100'', orderAmount = 0,
      commission = 0, currency = js ''USD'', paymentMethod = js ''PayPal'', reportAmountUSD = 50,
      reimburseAmountCNY = 360, clientPPAccount = [], clientEmail = [], itemReason = js ''principal'',
      source = [], note' = [], exchangeRate = 0, reviewID = [], reviewScreenshot = None,
      isTransferCommission = js ''No'', isReviewDropped = js ''No'', communicationChannel = [],
      paymentCardLastDigits = [], ppTransferScreenshotPrincipal = Some (js ''data:image/png;base64,AAAA''),
      creditCardDeductionScreenshotPrincipal = None, ppTransferScreenshotCommission = None,
      creditCardDeductionScreenshotCommission = None, ppDeductionScreenshotTax = None,
      orderIdScreenshot = None, chatScreenshot = None, reviewLink = [], clientProfile = [],
      customFields = None, status = pending, auditResult = None, createdAt = 1710460800000\<rparr>"

text \<open>A collaborator that answers every request, and one that fails every request.\<close>

definition answering_ai :: GoogleGenAI where
  "answering_ai req = Inr (Some (js ''json''))"

definition failing_ai :: GoogleGenAI where
  "failing_ai req = Inl (Error (Some (js ''timeout'')))"

text \<open>
  A runtime whose collaborator reports an amount that differs from the claimed one and an
  order id that was found.
\<close>

definition example_runtime :: runtime where
  "example_runtime =
     \<lparr>process_env_API_KEY = Some (js ''key''), import_meta_env_VITE_API_KEY = None,
      newGoogleGenAI = (\<lambda>k. answering_ai),
      JSON_parse_amount = (\<lambda>t. Inr \<lparr>aj_matches = False, aj_extractedAmount = Val 12345,
                                     aj_reasoning = js ''amount differs''\<rparr>),
      JSON_parse_text = (\<lambda>t. Inr \<lparr>tj_matches = True, tj_foundText = Val (js ''ORD100''),
                                   tj_reasoning = js ''found in note''\<rparr>),
      Date_now = 1710460800000\<rparr>"

definition example_result :: AuditResult where
  "example_result =
     \<lparr>usdCheck = \<lparr>verified = False, extractedAmount = Val 12345, extractedText = Undef,
                  reason = js ''amount differs''\<rparr>,
      cnyCheck = \<lparr>verified = False, extractedAmount = Nul, extractedText = Undef,
                  reason = js ''No screenshot provided''\<rparr>,
      orderCheck = \<lparr>verified = True, extractedAmount = Nul, extractedText = Val (js ''ORD100''),
                    reason = js ''found in note''\<rparr>,
      timestamp = 1710460800000\<rparr>"

text \<open>
  A collaborator that marks its three answers, and the runtime in which these answers
  decode to a given USD answer, CNY answer and order answer.
\<close>

definition labelling_ai :: GoogleGenAI where
  "labelling_ai req =
     (case req of
        AmountPrompt amount ctx img \<Rightarrow>
          if ctx = js ''USD (PayPal Principal)'' then Inr (Some (js ''usd''))
          else Inr (Some (js ''cny''))
      | TextPrompt target img \<Rightarrow> Inr (Some (js ''order'')))"

definition scenario_runtime :: "amount_json \<Rightarrow> amount_json \<Rightarrow> text_json \<Rightarrow> runtime" where
  "scenario_runtime usd cny ord =
     \<lparr>process_env_API_KEY = Some (js ''key''), import_meta_env_VITE_API_KEY = None,
      newGoogleGenAI = (\<lambda>k. labelling_ai),
      JSON_parse_amount = (\<lambda>t. if t = js ''usd'' then Inr usd else Inr cny),
      JSON_parse_text = (\<lambda>t. Inr ord),
      Date_now = 1710460800000\<rparr>"

text \<open>Decoded answers: amounts that match, differ, or were not found, and likewise texts.\<close>

definition amount_matches :: amount_json where
  "amount_matches = \<lparr>aj_matches = True, aj_extractedAmount = Val 50, aj_reasoning = js ''same''\<rparr>"

definition amount_differs :: amount_json where
  "amount_differs =
     \<lparr>aj_matches = False, aj_extractedAmount = Val 12345, aj_reasoning = js ''differs''\<rparr>"

definition amount_not_found :: amount_json where
  "amount_not_found =
     \<lparr>aj_matches = False, aj_extractedAmount = Nul, aj_reasoning = js ''none''\<rparr>"

definition amount_key_missing :: amount_json where
  "amount_key_missing =
     \<lparr>aj_matches = False, aj_extractedAmount = Undef, aj_reasoning = js ''none''\<rparr>"

definition text_matches :: text_json where
  "text_matches =
     \<lparr>tj_matches = True, tj_foundText = Val (js ''ORD100''), tj_reasoning = js ''found''\<rparr>"

definition text_differs :: text_json where
  "text_differs =
     \<lparr>tj_matches = False, tj_foundText = Val (js ''ORD999''), tj_reasoning = js ''other''\<rparr>"

definition text_not_found :: text_json where
  "text_not_found = \<lparr>tj_matches = False, tj_foundText = Val [], tj_reasoning = js ''none''\<rparr>"

text \<open>The example claim with a CNY evidence image.\<close>

definition cny_item :: ReimbursementItem where
  "cny_item =
     example_item\<lparr>creditCardDeductionScreenshotPrincipal := Some (js ''data:image/png;base64,BBBB'')\<rparr>"

definition example_admin :: User where
  "example_admin =
     \<lparr>u_id = js ''u0'', username = js ''admin'', password = js ''admin'', chineseName = [],
      role = role_admin, u_createdAt = 0\<rparr>"

text \<open>
  The result a check gives when the call of the collaborator failed with the error \<open>e\<close>,
  a collaborator whose USD amount call fails while its other calls answer, and the key a
  full audit works with (\<open>explicitApiKey || getApiKey()\<close>).
\<close>

definition soft_failure :: "js_error \<Rightarrow> SingleCheckResult" where
  "soft_failure e =
     \<lparr>verified = False, extractedAmount = Nul, extractedText = Undef,
      reason = js ''AI Error: '' @ message_or_unknown e\<rparr>"

definition usd_failing_ai :: GoogleGenAI where
  "usd_failing_ai req =
     (case req of
        AmountPrompt amount ctx img \<Rightarrow>
          if ctx = js ''USD (PayPal Principal)'' then Inl (Error (Some (js ''timeout'')))
          else Inr (Some (js ''json''))
      | TextPrompt target img \<Rightarrow> Inr (Some (js ''json'')))"

definition flaky_runtime :: runtime where
  "flaky_runtime = example_runtime\<lparr>newGoogleGenAI := (\<lambda>k. usd_failing_ai)\<rparr>"

definition effective_key :: "runtime \<Rightarrow> jsstring option \<Rightarrow> jsstring" where
  "effective_key rt explicitApiKey =
     (case explicitApiKey of
        Some k \<Rightarrow> if k \<noteq> [] then k else getApiKey rt
      | None \<Rightarrow> getApiKey rt)"







text \<open>
  On a string of ASCII characters \<open>toUpperCase\<close> maps the letters \<open>a\<close> to \<open>z\<close> to \<open>A\<close> to
  \<open>Z\<close> and leaves every other character as it is. This function stands for it where
  the fixed inputs, all ASCII, are evaluated, and where two ASCII strings are compared
  without regard to case.
\<close>

definition ascii_toUpperCase :: "jsstring \<Rightarrow> jsstring" where
  "ascii_toUpperCase s = map (\<lambda>c. if 97 \<le> c \<and> c \<le> 122 then c - 32 else c) s"

text \<open>
  The trimmed value of a form field or of an attribute of a stored claim; a field without
  a value counts as the empty string. Two claims share order id and expense attribute with
  a candidate: compared after trimming, and compared after trimming without regard to
  case.
\<close>

definition trimmed :: "jsstring option \<Rightarrow> jsstring" where
  "trimmed v = (case v of None \<Rightarrow> [] | Some s \<Rightarrow> trim s)"

definition same_pair :: "FormData \<Rightarrow> ReimbursementItem \<Rightarrow> bool" where
  "same_pair formData i =
     (normalize_str (Some (orderId i)) = normalize_str (fd_orderId formData) \<and>
      normalize_str (Some (itemReason i)) = normalize_str (fd_itemReason formData))"

definition same_pair_ignoring_case :: "FormData \<Rightarrow> ReimbursementItem \<Rightarrow> bool" where
  "same_pair_ignoring_case formData i =
     (ascii_toUpperCase (trimmed (Some (orderId i))) =
        ascii_toUpperCase (trimmed (fd_orderId formData)) \<and>
      ascii_toUpperCase (trimmed (Some (itemReason i))) =
        ascii_toUpperCase (trimmed (fd_itemReason formData)))"

text \<open>
  A user whose display name has two characters, and a transliteration that gives the two
  initials of that name.
\<close>

definition example_user :: User where
  "example_user =
     \<lparr>u_id = js ''u1'', username = js ''zhangsan'', password = js ''secret'',
      chineseName = [0x5F20, 0x4E09],
      role = role_user, u_createdAt = 0\<rparr>"


definition example_pinyin :: "jsstring \<Rightarrow> pinyin_result" where
  "example_pinyin name = PinyinArray [js ''z'', js ''s'']"

definition example_date :: LocalDate where
  "example_date = \<lparr>getFullYear = 2024, getMonth = 2, getDate = 15\<rparr>"

text \<open>
  Form states: the order id and attribute of \<open>example_item\<close> with white space around
  them, the same order id with another attribute, and the same pair in lower case.
\<close>

definition same_candidate :: FormData where
  "same_candidate =
     \<lparr>fd_orderId = Some (js '' ORD100 ''), fd_itemReason = Some (js ''principal''),
      fd_storeName = Some (js ''Anilivo-US''), fd_companySKU = Some (js ''SKU-001''),
      fd_other = Map.empty, fd_customFields = Some Map.empty\<rparr>"

definition other_candidate :: FormData where
  "other_candidate = same_candidate\<lparr>fd_itemReason := Some (js ''commission'')\<rparr>"

definition lower_candidate :: FormData where
  "lower_candidate = same_candidate\<lparr>fd_orderId := Some (js ''ord100'')\<rparr>"

text \<open>The example claim with an ideographic space (U+3000) after its order id.\<close>

definition wide_space_item :: ReimbursementItem where
  "wide_space_item = example_item\<lparr>orderId := js ''ORD100'' @ [0x3000]\<rparr>"

text \<open>A stored claim and a form state for the same order, both without an attribute.\<close>

definition blank_reason_item :: ReimbursementItem where
  "blank_reason_item = example_item\<lparr>itemReason := []\<rparr>"

definition blank_reason_candidate :: FormData where
  "blank_reason_candidate = same_candidate\<lparr>fd_itemReason := None\<rparr>"






text \<open>
  The number that a string of decimal digits denotes, and the number of claims whose
  generated identifier starts with a prefix.
\<close>

definition decimal_value :: "jsstring \<Rightarrow> nat" where
  "decimal_value s = foldl (\<lambda>a c. 10 * a + (c - 48)) 0 s"

definition same_prefix_count :: "jsstring \<Rightarrow> ReimbursementItem list \<Rightarrow> nat" where
  "same_prefix_count prefix items = length (filter (\<lambda>i. startsWith (autoId i) prefix) items)"

text \<open>
  A user whose display name has six characters, and a transliteration that gives the six
  initials of that name.
\<close>

definition six_name_user :: User where
  "six_name_user =
     \<lparr>u_id = js ''u2'', username = js ''admin2'', password = js ''secret'',
      chineseName = [0x8D85, 0x7EA7, 0x7BA1, 0x7406, 0x5458, 0x4E8C],
      role = role_admin, u_createdAt = 0\<rparr>"

definition six_name_pinyin :: "jsstring \<Rightarrow> pinyin_result" where
  "six_name_pinyin name = PinyinArray [js ''c'', js ''j'', js ''g'', js ''l'', js ''y'', js ''e'']"

text \<open>A transliteration that throws.\<close>

definition throwing_pinyin :: "jsstring \<Rightarrow> pinyin_result" where
  "throwing_pinyin name = PinyinThrows"

text \<open>
  The rows a user may see, the conversion of a row to a claim, and fixed rows: a claim of
  the example user and a claim of another user with the same order id and attribute.
\<close>

definition scope_rows :: "User \<Rightarrow> Row list \<Rightarrow> Row list" where
  "scope_rows u rows =
     (if role u = role_admin then rows else filter (\<lambda>r. row_user_id r = u_id u) rows)"

definition row_claim :: "Row \<Rightarrow> ReimbursementItem" where
  "row_claim row = (row_data row)\<lparr>id' := row_id row\<rparr>"

definition own_row :: Row where
  "own_row = \<lparr>row_id = js ''c1'', row_user_id = js ''u1'', row_data = example_item,
               row_created_at = 1710460800000\<rparr>"

definition foreign_row :: Row where
  "foreign_row = \<lparr>row_id = js ''c2'', row_user_id = js ''u9'', row_data = example_item,
                   row_created_at = 1710460900000\<rparr>"

section \<open>Code units and literals\<close>

lemma js_eq_iff [simp]: "(js a = js b) = (a = b)"
proof -
  have "inj (of_char :: char \<Rightarrow> nat)"
    by (rule injI) simp
  then show ?thesis
    by (simp add: js_def inj_map_eq_map)
qed

lemma js_Nil [simp]: "js [] = []"
  by (simp add: js_def)

lemma js_eq_Nil [simp]: "(js a = []) = (a = [])" "([] = js a) = (a = [])"
  by (auto simp: js_def)

lemma js_append [simp]: "js a @ js b = js (a @ b)" "js a @ js b @ x = js (a @ b) @ x"
  by (simp_all add: js_def)

lemma length_js [simp]: "length (js a) = length a"
  by (simp add: js_def)

lemma non_empty_text_truthy: "non_empty_text x = truthy_text x"
  by (cases x) (simp_all add: non_empty_text_def)

lemma image_supplied_truthy: "image_supplied slot = truthy slot"
  by (cases slot) (simp_all add: image_supplied_def)

lemma replicate_2: "replicate 2 x = [x, x]"
  by (simp add: numeral_2_eq_2)

lemma trim_Nil: "trim [] = []"
  by (simp add: trim_def)

lemma normalize_str_trimmed: "normalize_str v = trimmed v"
  by (cases v) (simp_all add: normalize_str_def trimmed_def trim_Nil)

section \<open>Audit Resolver: status, missing evidence, frame\<close>

lemma performAmountCheck_total: "\<exists>r. performAmountCheck rt ai amount img ctx = Inr r"
  by (simp add: performAmountCheck_def split: option.split sum.split)

lemma performTextCheck_total: "\<exists>r. performTextCheck rt ai txt img ctx = Inr r"
  by (simp add: performTextCheck_def split: option.split sum.split)

lemma Promise_all3_Inr: "Promise_all3 (Inr a) (Inr b) (Inr c) = Inr (a, b, c)"
  by (simp add: Promise_all3_def)

lemma performFullAudit_total: "\<exists>r. performFullAudit rt a1 s1 a2 s2 oid s3 k = Inr r"
proof -
  let ?apiKey = "(case k of Some k' \<Rightarrow> if k' \<noteq> [] then k' else getApiKey rt | None \<Rightarrow> getApiKey rt)"
  let ?img = "(if truthy s3 then s3 else s1)"
  let ?ctx = "(js ''Order ID Check ('') @ (if truthy s3 then js ''Dedicated Order Screenshot''
                else js ''USD Payment Notes'') @ js '')''"
  obtain r1 where r1: "performAmountCheck rt (newGoogleGenAI rt ?apiKey) a1 s1
                         (js ''USD (PayPal Principal)'') = Inr r1"
    using performAmountCheck_total by blast
  obtain r2 where r2: "performAmountCheck rt (newGoogleGenAI rt ?apiKey) a2 s2
                         (js ''CNY (Credit Card Deduction)'') = Inr r2"
    using performAmountCheck_total by blast
  obtain r3 where r3: "performTextCheck rt (newGoogleGenAI rt ?apiKey) oid ?img ?ctx = Inr r3"
    using performTextCheck_total by blast
  show ?thesis
  proof (cases "?apiKey = []")
    case True
    then show ?thesis by (simp add: performFullAudit_def Let_def)
  next
    case False
    then show ?thesis
      using r1 r2 r3 by (simp add: performFullAudit_def Let_def Promise_all3_Inr)
  qed
qed

lemma spec_status_unfold:
  "spec_status usd cny ord (image_supplied slot) =
     (if \<not> verified usd \<and> extractedAmount usd \<noteq> Nul then rejected
      else if \<not> verified ord \<and> truthy_text (extractedText ord) then rejected
      else if truthy slot \<and> \<not> verified cny \<and> extractedAmount cny \<noteq> Nul then rejected
      else if verified usd \<and> verified ord \<and> (\<not> truthy slot \<or> verified cny) then approved
      else pending)"
  by (simp only: spec_status_def first_match.simps non_null_def non_empty_text_truthy
        image_supplied_truthy)

lemma status_policy_examples:
  "\<not> verified usd \<Longrightarrow> extractedAmount usd = Val a \<Longrightarrow> spec_status usd cny ord c = rejected"
  "\<not> verified usd \<Longrightarrow> extractedAmount usd = Undef \<Longrightarrow> spec_status usd cny ord c = rejected"
  "verified usd \<Longrightarrow> verified ord \<Longrightarrow> spec_status usd cny ord False = approved"
  "\<not> verified usd \<Longrightarrow> extractedAmount usd = Nul \<Longrightarrow> \<not> verified ord
     \<Longrightarrow> extractedText ord = Nul \<Longrightarrow> extractedAmount cny = Nul
     \<Longrightarrow> spec_status usd cny ord c = pending"
  by (simp_all add: spec_status_def non_null_def non_empty_text_def)

lemma runAuditForItem_no_evidence:
  assumes "\<not> truthy (ppTransferScreenshotPrincipal item) \<and> \<not> truthy (orderIdScreenshot item)"
  shows "runAuditForItem rt item key = Inl NoScreenshots"
  unfolding runAuditForItem_def Let_def by (simp only: if_P[OF assms])

lemma runAuditForItem_evidence:
  assumes ev: "\<not> (\<not> truthy (ppTransferScreenshotPrincipal item) \<and> \<not> truthy (orderIdScreenshot item))"
  shows "\<exists>result.
           performFullAudit rt (reportAmountUSD item) (ppTransferScreenshotPrincipal item)
             (reimburseAmountCNY item) (creditCardDeductionScreenshotPrincipal item) (orderId item)
             (if truthy (orderIdScreenshot item) then orderIdScreenshot item else None) key
             = Inr result \<and>
           runAuditForItem rt item key =
             Inr (item\<lparr>auditResult := Some result,
                   status := spec_status (usdCheck result) (cnyCheck result) (orderCheck result)
                               (image_supplied (creditCardDeductionScreenshotPrincipal item))\<rparr>)"
proof -
  let ?p = "performFullAudit rt (reportAmountUSD item) (ppTransferScreenshotPrincipal item)
             (reimburseAmountCNY item) (creditCardDeductionScreenshotPrincipal item) (orderId item)
             (if truthy (orderIdScreenshot item) then orderIdScreenshot item else None) key"
  obtain result where r: "?p = Inr result"
    using performFullAudit_total by blast
  have "runAuditForItem rt item key =
          Inr (item\<lparr>auditResult := Some result,
                status := spec_status (usdCheck result) (cnyCheck result) (orderCheck result)
                            (image_supplied (creditCardDeductionScreenshotPrincipal item))\<rparr>)"
    unfolding runAuditForItem_def Let_def spec_status_unfold
    by (simp only: if_not_P[OF ev] r sum.case)
  with r show ?thesis by blast
qed

lemma runAuditForItem_Inr:
  assumes "runAuditForItem rt item key = Inr item'"
  shows "\<exists>result.
           performFullAudit rt (reportAmountUSD item) (ppTransferScreenshotPrincipal item)
             (reimburseAmountCNY item) (creditCardDeductionScreenshotPrincipal item) (orderId item)
             (if truthy (orderIdScreenshot item) then orderIdScreenshot item else None) key
             = Inr result \<and>
           item' = item\<lparr>auditResult := Some result,
                     status := spec_status (usdCheck result) (cnyCheck result) (orderCheck result)
                                 (image_supplied (creditCardDeductionScreenshotPrincipal item))\<rparr>"
proof -
  have ev: "\<not> (\<not> truthy (ppTransferScreenshotPrincipal item) \<and> \<not> truthy (orderIdScreenshot item))"
  proof
    assume "\<not> truthy (ppTransferScreenshotPrincipal item) \<and> \<not> truthy (orderIdScreenshot item)"
    then have "runAuditForItem rt item key = Inl NoScreenshots"
      by (rule runAuditForItem_no_evidence)
    with assms show False by (simp only: sum.distinct)
  qed
  from runAuditForItem_evidence[OF ev, of rt key] obtain result where
    r: "performFullAudit rt (reportAmountUSD item) (ppTransferScreenshotPrincipal item)
             (reimburseAmountCNY item) (creditCardDeductionScreenshotPrincipal item) (orderId item)
             (if truthy (orderIdScreenshot item) then orderIdScreenshot item else None) key
             = Inr result"
    and run: "runAuditForItem rt item key =
             Inr (item\<lparr>auditResult := Some result,
                   status := spec_status (usdCheck result) (cnyCheck result) (orderCheck result)
                               (image_supplied (creditCardDeductionScreenshotPrincipal item))\<rparr>)"
    by blast
  from assms run have "(Inr item' :: audit_error + ReimbursementItem) =
      Inr (item\<lparr>auditResult := Some result,
            status := spec_status (usdCheck result) (cnyCheck result) (orderCheck result)
                        (image_supplied (creditCardDeductionScreenshotPrincipal item))\<rparr>)"
    by (rule trans[OF sym])
  then have "item' = item\<lparr>auditResult := Some result,
                status := spec_status (usdCheck result) (cnyCheck result) (orderCheck result)
                            (image_supplied (creditCardDeductionScreenshotPrincipal item))\<rparr>"
    by (simp only: sum.inject)
  with r show ?thesis by blast
qed

lemma example_full_audit:
  "performFullAudit example_runtime 50 (Some (js ''data:image/png;base64,AAAA'')) 360 None
     (js ''ORD100'') None None = Inr example_result"
  by (simp add: example_runtime_def performFullAudit_def example_result_def
        getApiKey_def Let_def Promise_all3_def performAmountCheck_def performTextCheck_def
        performAmountCheck_try_def performTextCheck_try_def answering_ai_def)

lemma example_run:
  "runAuditForItem example_runtime example_item None =
     Inr (example_item\<lparr>auditResult := Some example_result, status := rejected\<rparr>)"
  by (simp add: runAuditForItem_def Let_def example_item_def example_full_audit example_result_def)

lemma example_item_audit_fields:
  "reportAmountUSD example_item = 50" "reimburseAmountCNY example_item = 360"
  "orderId example_item = js ''ORD100''"
  "ppTransferScreenshotPrincipal example_item = Some (js ''data:image/png;base64,AAAA'')"
  "creditCardDeductionScreenshotPrincipal example_item = None"
  "orderIdScreenshot example_item = None"
  "reportAmountUSD cny_item = 50" "reimburseAmountCNY cny_item = 360"
  "orderId cny_item = js ''ORD100''"
  "ppTransferScreenshotPrincipal cny_item = Some (js ''data:image/png;base64,AAAA'')"
  "creditCardDeductionScreenshotPrincipal cny_item = Some (js ''data:image/png;base64,BBBB'')"
  "orderIdScreenshot cny_item = None"
  by (simp_all add: example_item_def cny_item_def)

text \<open>
  A full audit in a scenario: of a claim without a CNY image, and of a claim with one.
\<close>

lemma scenario_audit:
  "performFullAudit (scenario_runtime usd cny ord) 50 (Some (js ''data:image/png;base64,AAAA''))
     360 None (js ''ORD100'') None None =
   Inr \<lparr>usdCheck = \<lparr>verified = aj_matches usd, extractedAmount = aj_extractedAmount usd,
                     extractedText = Undef, reason = aj_reasoning usd\<rparr>,
        cnyCheck = \<lparr>verified = False, extractedAmount = Nul, extractedText = Undef,
                     reason = js ''No screenshot provided''\<rparr>,
        orderCheck = \<lparr>verified = tj_matches ord, extractedAmount = Nul,
                       extractedText = tj_foundText ord, reason = tj_reasoning ord\<rparr>,
        timestamp = 1710460800000\<rparr>"
  by (simp add: scenario_runtime_def performFullAudit_def getApiKey_def Let_def Promise_all3_def
        performAmountCheck_def performTextCheck_def performAmountCheck_try_def
        performTextCheck_try_def labelling_ai_def)

lemma scenario_audit_cny:
  "performFullAudit (scenario_runtime usd cny ord) 50 (Some (js ''data:image/png;base64,AAAA''))
     360 (Some (js ''data:image/png;base64,BBBB'')) (js ''ORD100'') None None =
   Inr \<lparr>usdCheck = \<lparr>verified = aj_matches usd, extractedAmount = aj_extractedAmount usd,
                     extractedText = Undef, reason = aj_reasoning usd\<rparr>,
        cnyCheck = \<lparr>verified = aj_matches cny, extractedAmount = aj_extractedAmount cny,
                     extractedText = Undef, reason = aj_reasoning cny\<rparr>,
        orderCheck = \<lparr>verified = tj_matches ord, extractedAmount = Nul,
                       extractedText = tj_foundText ord, reason = tj_reasoning ord\<rparr>,
        timestamp = 1710460800000\<rparr>"
  by (simp add: scenario_runtime_def performFullAudit_def getApiKey_def Let_def Promise_all3_def
        performAmountCheck_def performTextCheck_def performAmountCheck_try_def
        performTextCheck_try_def labelling_ai_def)

text \<open>
  C1. A claim that has a USD transfer proof image or an order-id proof image is audited:
  the Audit Resolver returns an audited claim. The audit result it wrote is the bundle of
  three check results that the full audit of the claim's amounts, order id and images
  returned, and the status it wrote is the one the first matching rule of the stated
  policy gives for that bundle, with "a CNY image was supplied" read off the claim's CNY
  evidence slot:
  (1) USD check not verified with a non-null extracted amount: rejected;
  (2) order check not verified with a non-empty extracted text: rejected;
  (3) CNY image supplied, CNY check not verified with a non-null extracted amount: rejected;
  (4) USD and order checks verified, and no CNY image or CNY check verified: approved;
  (5) otherwise pending.
\<close>

theorem audit_status_first_matching_rule:
  "(image_supplied (ppTransferScreenshotPrincipal item) \<or>
    image_supplied (orderIdScreenshot item) \<longrightarrow>
      (\<exists>audited result.
         runAuditForItem rt item key = Inr audited \<and>
         performFullAudit rt (reportAmountUSD item) (ppTransferScreenshotPrincipal item)
           (reimburseAmountCNY item) (creditCardDeductionScreenshotPrincipal item) (orderId item)
           (if image_supplied (orderIdScreenshot item) then orderIdScreenshot item else None) key
           = Inr result \<and>
         auditResult audited = Some result \<and>
         status audited =
           spec_status (usdCheck result) (cnyCheck result) (orderCheck result)
             (image_supplied (creditCardDeductionScreenshotPrincipal item)))) \<and>
   (runAuditForItem rt item key = Inr item' \<longrightarrow>
      (\<exists>result.
         performFullAudit rt (reportAmountUSD item) (ppTransferScreenshotPrincipal item)
           (reimburseAmountCNY item) (creditCardDeductionScreenshotPrincipal item) (orderId item)
           (if image_supplied (orderIdScreenshot item) then orderIdScreenshot item else None) key
           = Inr result \<and>
         auditResult item' = Some result \<and>
         status item' =
           spec_status (usdCheck result) (cnyCheck result) (orderCheck result)
             (image_supplied (creditCardDeductionScreenshotPrincipal item))))"
proof -
  let ?full = "performFullAudit rt (reportAmountUSD item) (ppTransferScreenshotPrincipal item)
           (reimburseAmountCNY item) (creditCardDeductionScreenshotPrincipal item) (orderId item)
           (if image_supplied (orderIdScreenshot item) then orderIdScreenshot item else None) key"
  have derived: "\<exists>result. ?full = Inr result \<and> auditResult x = Some result \<and>
         status x =
           spec_status (usdCheck result) (cnyCheck result) (orderCheck result)
             (image_supplied (creditCardDeductionScreenshotPrincipal item))"
    if run: "runAuditForItem rt item key = Inr x" for x
  proof -
    from runAuditForItem_Inr[OF run] obtain result where
      r: "performFullAudit rt (reportAmountUSD item) (ppTransferScreenshotPrincipal item)
             (reimburseAmountCNY item) (creditCardDeductionScreenshotPrincipal item) (orderId item)
             (if truthy (orderIdScreenshot item) then orderIdScreenshot item else None) key
             = Inr result"
      and e: "x = item\<lparr>auditResult := Some result,
                    status := spec_status (usdCheck result) (cnyCheck result) (orderCheck result)
                                (image_supplied (creditCardDeductionScreenshotPrincipal item))\<rparr>"
      by blast
    from r have r': "?full = Inr result"
      by (simp only: image_supplied_truthy)
    have "auditResult x = Some result" by (subst e) simp
    moreover have "status x =
        spec_status (usdCheck result) (cnyCheck result) (orderCheck result)
          (image_supplied (creditCardDeductionScreenshotPrincipal item))"
      by (subst e) simp
    ultimately show ?thesis using r' by blast
  qed
  have total: "image_supplied (ppTransferScreenshotPrincipal item) \<or>
    image_supplied (orderIdScreenshot item) \<longrightarrow>
      (\<exists>audited result.
         runAuditForItem rt item key = Inr audited \<and> ?full = Inr result \<and>
         auditResult audited = Some result \<and>
         status audited =
           spec_status (usdCheck result) (cnyCheck result) (orderCheck result)
             (image_supplied (creditCardDeductionScreenshotPrincipal item)))"
  proof
    assume "image_supplied (ppTransferScreenshotPrincipal item) \<or>
      image_supplied (orderIdScreenshot item)"
    then have "\<not> (\<not> truthy (ppTransferScreenshotPrincipal item) \<and>
                   \<not> truthy (orderIdScreenshot item))"
      by (simp only: image_supplied_truthy) blast
    from runAuditForItem_evidence[OF this, of rt key]
    obtain audited where "runAuditForItem rt item key = Inr audited" by blast
    with derived[of audited]
    show "\<exists>audited result.
         runAuditForItem rt item key = Inr audited \<and> ?full = Inr result \<and>
         auditResult audited = Some result \<and>
         status audited =
           spec_status (usdCheck result) (cnyCheck result) (orderCheck result)
             (image_supplied (creditCardDeductionScreenshotPrincipal item))"
      by blast
  qed
  from derived[of item'] have second: "runAuditForItem rt item key = Inr item' \<longrightarrow>
      (\<exists>result. ?full = Inr result \<and> auditResult item' = Some result \<and>
         status item' =
           spec_status (usdCheck result) (cnyCheck result) (orderCheck result)
             (image_supplied (creditCardDeductionScreenshotPrincipal item)))"
    by blast
  from total second show ?thesis by (rule conjI)
qed

theorem audit_status_first_matching_rule_witness:
  "(\<exists>a. runAuditForItem (scenario_runtime amount_differs amount_matches text_matches)
          example_item None = Inr a \<and> status a = rejected) \<and>
   (\<exists>a. runAuditForItem (scenario_runtime amount_key_missing amount_matches text_matches)
          example_item None = Inr a \<and> status a = rejected) \<and>
   (\<exists>a. runAuditForItem (scenario_runtime amount_matches amount_matches text_differs)
          example_item None = Inr a \<and> status a = rejected) \<and>
   (\<exists>a. runAuditForItem (scenario_runtime amount_matches amount_differs text_matches)
          cny_item None = Inr a \<and> status a = rejected) \<and>
   (\<exists>a. runAuditForItem (scenario_runtime amount_matches amount_differs text_matches)
          example_item None = Inr a \<and> status a = approved) \<and>
   (\<exists>a. runAuditForItem (scenario_runtime amount_matches amount_matches text_matches)
          cny_item None = Inr a \<and> status a = approved) \<and>
   (\<exists>a. runAuditForItem (scenario_runtime amount_matches amount_not_found text_matches)
          cny_item None = Inr a \<and> status a = pending) \<and>
   (\<exists>a. runAuditForItem (scenario_runtime amount_not_found amount_matches text_not_found)
          example_item None = Inr a \<and> status a = pending) \<and>
   runAuditForItem example_runtime example_item None =
     Inr (example_item\<lparr>auditResult := Some example_result, status := rejected\<rparr>) \<and>
   spec_status (usdCheck example_result) (cnyCheck example_result) (orderCheck example_result)
     (image_supplied (creditCardDeductionScreenshotPrincipal example_item)) = rejected"
proof -
  note ev = example_item_audit_fields image_supplied_def scenario_audit scenario_audit_cny
    spec_status_def non_null_def non_empty_text_def
  have s1: "\<exists>a. runAuditForItem (scenario_runtime amount_differs amount_matches text_matches)
          example_item None = Inr a \<and> status a = rejected"
    using audit_status_first_matching_rule[where item=example_item and key=None
        and rt="scenario_runtime amount_differs amount_matches text_matches", THEN conjunct1]
    by (auto simp add: ev amount_differs_def text_matches_def)
  have s2: "\<exists>a. runAuditForItem (scenario_runtime amount_key_missing amount_matches text_matches)
          example_item None = Inr a \<and> status a = rejected"
    using audit_status_first_matching_rule[where item=example_item and key=None
        and rt="scenario_runtime amount_key_missing amount_matches text_matches", THEN conjunct1]
    by (auto simp add: ev amount_key_missing_def text_matches_def)
  have s3: "\<exists>a. runAuditForItem (scenario_runtime amount_matches amount_matches text_differs)
          example_item None = Inr a \<and> status a = rejected"
    using audit_status_first_matching_rule[where item=example_item and key=None
        and rt="scenario_runtime amount_matches amount_matches text_differs", THEN conjunct1]
    by (auto simp add: ev amount_matches_def text_differs_def)
  have s4: "\<exists>a. runAuditForItem (scenario_runtime amount_matches amount_differs text_matches)
          cny_item None = Inr a \<and> status a = rejected"
    using audit_status_first_matching_rule[where item=cny_item and key=None
        and rt="scenario_runtime amount_matches amount_differs text_matches", THEN conjunct1]
    by (auto simp add: ev amount_matches_def amount_differs_def text_matches_def)
  have s5: "\<exists>a. runAuditForItem (scenario_runtime amount_matches amount_differs text_matches)
          example_item None = Inr a \<and> status a = approved"
    using audit_status_first_matching_rule[where item=example_item and key=None
        and rt="scenario_runtime amount_matches amount_differs text_matches", THEN conjunct1]
    by (auto simp add: ev amount_matches_def amount_differs_def text_matches_def)
  have s6: "\<exists>a. runAuditForItem (scenario_runtime amount_matches amount_matches text_matches)
          cny_item None = Inr a \<and> status a = approved"
    using audit_status_first_matching_rule[where item=cny_item and key=None
        and rt="scenario_runtime amount_matches amount_matches text_matches", THEN conjunct1]
    by (auto simp add: ev amount_matches_def text_matches_def)
  have s7: "\<exists>a. runAuditForItem (scenario_runtime amount_matches amount_not_found text_matches)
          cny_item None = Inr a \<and> status a = pending"
    using audit_status_first_matching_rule[where item=cny_item and key=None
        and rt="scenario_runtime amount_matches amount_not_found text_matches", THEN conjunct1]
    by (auto simp add: ev amount_matches_def amount_not_found_def text_matches_def)
  have s8: "\<exists>a. runAuditForItem (scenario_runtime amount_not_found amount_matches text_not_found)
          example_item None = Inr a \<and> status a = pending"
    using audit_status_first_matching_rule[where item=example_item and key=None
        and rt="scenario_runtime amount_not_found amount_matches text_not_found", THEN conjunct1]
    by (auto simp add: ev amount_not_found_def text_not_found_def)
  from audit_status_first_matching_rule[where rt=example_runtime and item=example_item
      and key=None
      and item'="example_item\<lparr>auditResult := Some example_result, status := rejected\<rparr>",
      THEN conjunct2]
    example_run
  have "\<exists>result.
          auditResult (example_item\<lparr>auditResult := Some example_result, status := rejected\<rparr>)
            = Some result \<and>
          status (example_item\<lparr>auditResult := Some example_result, status := rejected\<rparr>) =
            spec_status (usdCheck result) (cnyCheck result) (orderCheck result)
              (image_supplied (creditCardDeductionScreenshotPrincipal example_item))"
    by blast
  then have "\<exists>result. Some example_result = Some result \<and>
          rejected = spec_status (usdCheck result) (cnyCheck result) (orderCheck result)
                       (image_supplied (creditCardDeductionScreenshotPrincipal example_item))"
    by simp
  then have s10: "spec_status (usdCheck example_result) (cnyCheck example_result)
               (orderCheck example_result)
               (image_supplied (creditCardDeductionScreenshotPrincipal example_item)) = rejected"
    by auto
  note s9 = example_run
  from s1 s2 s3 s4 s5 s6 s7 s8 s9 s10 show ?thesis by (intro conjI)
qed

text \<open>
  C2. A claim with neither a USD transfer proof image nor an order-id proof image makes the
  Audit Resolver fail with the no-evidence error, whatever the runtime and the key; the
  handler that invoked it then leaves the list of claims as it was, so the claim keeps
  its status and gets no audit result.
\<close>

theorem no_evidence_fails_and_leaves_claim:
  assumes "\<not> truthy (ppTransferScreenshotPrincipal item)"
      and "\<not> truthy (orderIdScreenshot item)"
  shows "runAuditForItem rt item key = Inl NoScreenshots \<and>
         handleVerifySingle rt currentUser promptInput reimbursements item = reimbursements"
proof -
  from assms have "\<not> truthy (ppTransferScreenshotPrincipal item) \<and> \<not> truthy (orderIdScreenshot item)"
    by blast
  then have run: "\<And>k. runAuditForItem rt item k = Inl NoScreenshots"
    by (rule runAuditForItem_no_evidence)
  have "handleVerifySingle rt currentUser promptInput reimbursements item = reimbursements"
    unfolding handleVerifySingle_def Let_def
    by (simp add: run split: option.split)
  with run show ?thesis by blast
qed

theorem no_evidence_fails_and_leaves_claim_witness:
  "runAuditForItem example_runtime (example_item\<lparr>ppTransferScreenshotPrincipal := None\<rparr>) None
     = Inl NoScreenshots \<and>
   handleVerifySingle example_runtime example_admin None
     [example_item\<lparr>ppTransferScreenshotPrincipal := None\<rparr>]
     (example_item\<lparr>ppTransferScreenshotPrincipal := None\<rparr>)
     = [example_item\<lparr>ppTransferScreenshotPrincipal := None\<rparr>]"
proof -
  have a: "\<not> truthy (ppTransferScreenshotPrincipal
                         (example_item\<lparr>ppTransferScreenshotPrincipal := None\<rparr>))"
    by simp
  have b: "\<not> truthy (orderIdScreenshot (example_item\<lparr>ppTransferScreenshotPrincipal := None\<rparr>))"
    by (simp add: example_item_def)
  show ?thesis by (rule no_evidence_fails_and_leaves_claim[OF a b])
qed

text \<open>
  C9. An audited claim returned by the Audit Resolver differs from the claim it was given
  in the status and the audit result only: putting the old status and the old audit result
  back gives the input claim, so every other field is unchanged.
\<close>

theorem audit_changes_only_status_and_result:
  assumes "runAuditForItem rt item key = Inr item'"
  shows "item'\<lparr>auditResult := auditResult item, status := status item\<rparr> = item"
proof -
  from runAuditForItem_Inr[OF assms] obtain result where
    e: "item' = item\<lparr>auditResult := Some result,
                  status := spec_status (usdCheck result) (cnyCheck result) (orderCheck result)
                              (image_supplied (creditCardDeductionScreenshotPrincipal item))\<rparr>"
    by blast
  show ?thesis by (subst e) simp
qed

theorem audit_changes_only_status_and_result_witness:
  "(example_item\<lparr>auditResult := Some example_result, status := rejected\<rparr>)
     \<lparr>auditResult := auditResult example_item, status := status example_item\<rparr> = example_item"
  by (rule audit_changes_only_status_and_result[OF example_run])

section \<open>Image verification: failures of the collaborator\<close>

lemma amount_check_soft:
  assumes "img \<noteq> []"
  shows "(ai (AmountPrompt amount ctx (cleanBase64 img)) = Inl e \<longrightarrow>
            performAmountCheck rt ai amount (Some img) ctx = Inr (soft_failure e)) \<and>
         (ai (AmountPrompt amount ctx (cleanBase64 img)) = Inr None \<or>
          ai (AmountPrompt amount ctx (cleanBase64 img)) = Inr (Some []) \<longrightarrow>
            performAmountCheck rt ai amount (Some img) ctx =
              Inr (soft_failure (Error (Some (js ''Empty AI response''))))) \<and>
         (ai (AmountPrompt amount ctx (cleanBase64 img)) = Inr (Some t) \<and> t \<noteq> [] \<and>
          JSON_parse_amount rt t = Inl e \<longrightarrow>
            performAmountCheck rt ai amount (Some img) ctx = Inr (soft_failure e))"
  using assms by (auto simp: performAmountCheck_def performAmountCheck_try_def soft_failure_def)

lemma text_check_soft:
  assumes "img \<noteq> []" and "target \<noteq> []"
  shows "(ai (TextPrompt target (cleanBase64 img)) = Inl e \<longrightarrow>
            performTextCheck rt ai target (Some img) ctx = Inr (soft_failure e)) \<and>
         (ai (TextPrompt target (cleanBase64 img)) = Inr None \<or>
          ai (TextPrompt target (cleanBase64 img)) = Inr (Some []) \<longrightarrow>
            performTextCheck rt ai target (Some img) ctx =
              Inr (soft_failure (Error (Some (js ''Empty AI response''))))) \<and>
         (ai (TextPrompt target (cleanBase64 img)) = Inr (Some t) \<and> t \<noteq> [] \<and>
          JSON_parse_text rt t = Inl e \<longrightarrow>
            performTextCheck rt ai target (Some img) ctx = Inr (soft_failure e))"
  using assms by (auto simp: performTextCheck_def performTextCheck_try_def soft_failure_def)

lemma performFullAudit_bundle:
  assumes "effective_key rt k \<noteq> []"
  shows "\<exists>res. performFullAudit rt a1 s1 a2 s2 oid s3 k = Inr res \<and>
           performAmountCheck rt (newGoogleGenAI rt (effective_key rt k)) a1 s1
             (js ''USD (PayPal Principal)'') = Inr (usdCheck res) \<and>
           performAmountCheck rt (newGoogleGenAI rt (effective_key rt k)) a2 s2
             (js ''CNY (Credit Card Deduction)'') = Inr (cnyCheck res) \<and>
           performTextCheck rt (newGoogleGenAI rt (effective_key rt k)) oid
             (if truthy s3 then s3 else s1)
             ((js ''Order ID Check ('') @ (if truthy s3 then js ''Dedicated Order Screenshot''
                else js ''USD Payment Notes'') @ js '')'') = Inr (orderCheck res)"
proof -
  let ?ai = "newGoogleGenAI rt (effective_key rt k)"
  let ?ctx = "(js ''Order ID Check ('') @ (if truthy s3 then js ''Dedicated Order Screenshot''
                else js ''USD Payment Notes'') @ js '')''"
  obtain r1 where r1: "performAmountCheck rt ?ai a1 s1 (js ''USD (PayPal Principal)'') = Inr r1"
    using performAmountCheck_total by blast
  obtain r2 where r2: "performAmountCheck rt ?ai a2 s2 (js ''CNY (Credit Card Deduction)'') = Inr r2"
    using performAmountCheck_total by blast
  obtain r3 where r3: "performTextCheck rt ?ai oid (if truthy s3 then s3 else s1) ?ctx = Inr r3"
    using performTextCheck_total by blast
  have "performFullAudit rt a1 s1 a2 s2 oid s3 k =
          Inr \<lparr>usdCheck = r1, cnyCheck = r2, orderCheck = r3, timestamp = Date_now rt\<rparr>"
    using assms r1 r2 r3
    by (simp add: performFullAudit_def Let_def Promise_all3_Inr effective_key_def)
  with r1 r2 r3 show ?thesis by simp
qed

text \<open>
  C8, as the code has it. For an amount check with an image, and for a text check with an
  image and a target text: when the call of the collaborator rejects with an error, or its
  response has no text or an empty text, or decoding the text throws, the check returns a
  result with \<open>verified = false\<close>, the extracted amount \<open>null\<close>, no extracted text, and the reason
  "AI Error: " followed by the message of the error ("Unknown error" when the error has no
  message). No check ever throws, a full audit never throws, and with a key each of the
  three results of a full audit is the result of that check run on its own, whatever the
  other two calls did.
\<close>

theorem collaborator_failure_is_soft:
  "(img \<noteq> [] \<longrightarrow>
      (ai (AmountPrompt amount ctx (cleanBase64 img)) = Inl e \<longrightarrow>
         performAmountCheck rt ai amount (Some img) ctx = Inr (soft_failure e)) \<and>
      (ai (AmountPrompt amount ctx (cleanBase64 img)) = Inr None \<or>
       ai (AmountPrompt amount ctx (cleanBase64 img)) = Inr (Some []) \<longrightarrow>
         performAmountCheck rt ai amount (Some img) ctx =
           Inr (soft_failure (Error (Some (js ''Empty AI response''))))) \<and>
      (ai (AmountPrompt amount ctx (cleanBase64 img)) = Inr (Some t) \<and> t \<noteq> [] \<and>
       JSON_parse_amount rt t = Inl e \<longrightarrow>
         performAmountCheck rt ai amount (Some img) ctx = Inr (soft_failure e))) \<and>
   (img \<noteq> [] \<and> target \<noteq> [] \<longrightarrow>
      (ai (TextPrompt target (cleanBase64 img)) = Inl e \<longrightarrow>
         performTextCheck rt ai target (Some img) ctx = Inr (soft_failure e)) \<and>
      (ai (TextPrompt target (cleanBase64 img)) = Inr None \<or>
       ai (TextPrompt target (cleanBase64 img)) = Inr (Some []) \<longrightarrow>
         performTextCheck rt ai target (Some img) ctx =
           Inr (soft_failure (Error (Some (js ''Empty AI response''))))) \<and>
      (ai (TextPrompt target (cleanBase64 img)) = Inr (Some t) \<and> t \<noteq> [] \<and>
       JSON_parse_text rt t = Inl e \<longrightarrow>
         performTextCheck rt ai target (Some img) ctx = Inr (soft_failure e))) \<and>
   (\<exists>r. performAmountCheck rt ai amount img_opt ctx = Inr r) \<and>
   (\<exists>r. performTextCheck rt ai target img_opt ctx = Inr r) \<and>
   (\<exists>res. performFullAudit rt a1 s1 a2 s2 oid s3 k = Inr res) \<and>
   (effective_key rt k \<noteq> [] \<longrightarrow>
      (\<exists>res. performFullAudit rt a1 s1 a2 s2 oid s3 k = Inr res \<and>
         performAmountCheck rt (newGoogleGenAI rt (effective_key rt k)) a1 s1
           (js ''USD (PayPal Principal)'') = Inr (usdCheck res) \<and>
         performAmountCheck rt (newGoogleGenAI rt (effective_key rt k)) a2 s2
           (js ''CNY (Credit Card Deduction)'') = Inr (cnyCheck res) \<and>
         performTextCheck rt (newGoogleGenAI rt (effective_key rt k)) oid
           (if truthy s3 then s3 else s1)
           ((js ''Order ID Check ('') @ (if truthy s3 then js ''Dedicated Order Screenshot''
              else js ''USD Payment Notes'') @ js '')'') = Inr (orderCheck res)))"
  using amount_check_soft[of img ai amount ctx e rt t] text_check_soft[of img target ai e rt ctx t]
    performAmountCheck_total[of rt ai amount img_opt ctx]
    performTextCheck_total[of rt ai target img_opt ctx]
    performFullAudit_total[of rt a1 s1 a2 s2 oid s3 k]
    performFullAudit_bundle[of rt k a1 s1 a2 s2 oid s3]
  by blast

lemma failing_call:
  "failing_ai (AmountPrompt 50 (js ''USD'') (cleanBase64 (js ''img''))) = Inl (Error (Some (js ''timeout'')))"
  by (simp add: failing_ai_def)

lemma flaky_key: "effective_key flaky_runtime None \<noteq> []"
  by (simp add: effective_key_def flaky_runtime_def example_runtime_def getApiKey_def)

lemma flaky_usd:
  "performAmountCheck flaky_runtime (newGoogleGenAI flaky_runtime (effective_key flaky_runtime None))
     50 (Some (js ''usd.png'')) (js ''USD (PayPal Principal)'') =
   Inr (soft_failure (Error (Some (js ''timeout''))))"
  by (simp add: flaky_runtime_def example_runtime_def performAmountCheck_def
        performAmountCheck_try_def usd_failing_ai_def soft_failure_def)

lemma flaky_cny:
  "performAmountCheck flaky_runtime (newGoogleGenAI flaky_runtime (effective_key flaky_runtime None))
     360 (Some (js ''cny.png'')) (js ''CNY (Credit Card Deduction)'') =
   Inr \<lparr>verified = False, extractedAmount = Val 12345, extractedText = Undef,
        reason = js ''amount differs''\<rparr>"
  by (simp add: flaky_runtime_def example_runtime_def performAmountCheck_def
        performAmountCheck_try_def usd_failing_ai_def)

theorem collaborator_failure_is_soft_witness:
  "performAmountCheck example_runtime failing_ai 50 (Some (js ''img'')) (js ''USD'') =
     Inr \<lparr>verified = False, extractedAmount = Nul, extractedText = Undef,
          reason = js ''AI Error: timeout''\<rparr> \<and>
   (\<exists>res. performFullAudit flaky_runtime 50 (Some (js ''usd.png'')) 360 (Some (js ''cny.png'')) (js ''ORD100'')
             None None = Inr res \<and>
          usdCheck res = \<lparr>verified = False, extractedAmount = Nul, extractedText = Undef,
                           reason = js ''AI Error: timeout''\<rparr> \<and>
          cnyCheck res = \<lparr>verified = False, extractedAmount = Val 12345, extractedText = Undef,
                           reason = js ''amount differs''\<rparr>)"
proof -
  have ne: "(js ''img'') \<noteq> []" by simp
  from collaborator_failure_is_soft[where img="(js ''img'')" and ai=failing_ai and amount=50
      and ctx="(js ''USD'')" and e="Error (Some (js ''timeout''))" and rt=example_runtime and t="(js ''json'')"
      and target="(js ''ORD100'')" and img_opt=None and ?a1.0=50 and ?s1.0=None and ?a2.0=360
      and ?s2.0=None and oid="(js ''ORD100'')" and ?s3.0=None and k=None]
    ne failing_call
  have "performAmountCheck example_runtime failing_ai 50 (Some (js ''img'')) (js ''USD'') =
          Inr (soft_failure (Error (Some (js ''timeout''))))"
    by blast
  then have first: "performAmountCheck example_runtime failing_ai 50 (Some (js ''img'')) (js ''USD'') =
     Inr \<lparr>verified = False, extractedAmount = Nul, extractedText = Undef,
          reason = js ''AI Error: timeout''\<rparr>"
    by (simp add: soft_failure_def)
  from collaborator_failure_is_soft[where img="(js ''img'')" and ai=failing_ai and amount=50
      and ctx="(js ''USD'')" and e="Error (Some (js ''timeout''))" and rt=flaky_runtime and t="(js ''json'')"
      and target="(js ''ORD100'')" and img_opt=None and ?a1.0=50 and ?s1.0="Some (js ''usd.png'')"
      and ?a2.0=360 and ?s2.0="Some (js ''cny.png'')" and oid="(js ''ORD100'')" and ?s3.0=None and k=None]
    flaky_key
  obtain res where
    res: "performFullAudit flaky_runtime 50 (Some (js ''usd.png'')) 360 (Some (js ''cny.png'')) (js ''ORD100'')
            None None = Inr res"
    and usd: "performAmountCheck flaky_runtime
                (newGoogleGenAI flaky_runtime (effective_key flaky_runtime None))
                50 (Some (js ''usd.png'')) (js ''USD (PayPal Principal)'') = Inr (usdCheck res)"
    and cny: "performAmountCheck flaky_runtime
                (newGoogleGenAI flaky_runtime (effective_key flaky_runtime None))
                360 (Some (js ''cny.png'')) (js ''CNY (Credit Card Deduction)'') = Inr (cnyCheck res)"
    by blast
  from usd flaky_usd have "usdCheck res = soft_failure (Error (Some (js ''timeout'')))"
    by simp
  then have u: "usdCheck res = \<lparr>verified = False, extractedAmount = Nul, extractedText = Undef,
                           reason = js ''AI Error: timeout''\<rparr>"
    by (simp add: soft_failure_def)
  from cny flaky_cny have c: "cnyCheck res = \<lparr>verified = False, extractedAmount = Val 12345,
                           extractedText = Undef, reason = js ''amount differs''\<rparr>"
    by simp
  from first res u c show ?thesis by blast
qed

text \<open>
  C8 as stated fails: the reason is not the error message itself. A collaborator that
  rejects with the message "timeout" does not give the reason "timeout".
\<close>

theorem collaborator_failure_reason_counterexample:
  "failing_ai (AmountPrompt 50 (js ''USD'') (cleanBase64 (js ''img''))) = Inl (Error (Some (js ''timeout''))) \<and>
   performAmountCheck example_runtime failing_ai 50 (Some (js ''img'')) (js ''USD'') \<noteq>
     Inr \<lparr>verified = False, extractedAmount = Nul, extractedText = Undef, reason = js ''timeout''\<rparr>"
  by (simp add: failing_ai_def performAmountCheck_def performAmountCheck_try_def)

section \<open>The fixed inputs, evaluated\<close>

lemma example_item_fields:
  "id' example_item = js ''c1''" "orderId example_item = js ''ORD100''"
  "itemReason example_item = js ''principal''" "autoId example_item = js ''ZS20240315001''"
  by (simp_all add: example_item_def)

lemma normalized_strings:
  "normalize_str (Some (js ''ORD100'')) = js ''ORD100''" "normalize_str (Some (js '' ORD100 '')) = js ''ORD100''"
  "normalize_str (Some (js ''ord100'')) = js ''ord100''" "normalize_str (Some (js ''principal'')) = js ''principal''"
  "normalize_str (Some (js ''commission'')) = js ''commission''"
  "normalize_str (Some (js ''ORD100'' @ [0x3000])) = js ''ORD100''"
  by (simp_all add: normalize_str_def trim_def is_ws_def js_def)

lemma candidate_fields:
  "normalize_str (fd_orderId same_candidate) = js ''ORD100''"
  "normalize_str (fd_itemReason same_candidate) = js ''principal''"
  "normalize_str (fd_orderId other_candidate) = js ''ORD100''"
  "normalize_str (fd_itemReason other_candidate) = js ''commission''"
  "normalize_str (fd_orderId lower_candidate) = js ''ord100''"
  "normalize_str (fd_itemReason lower_candidate) = js ''principal''"
  by (simp_all add: same_candidate_def other_candidate_def lower_candidate_def normalized_strings)

lemma example_prefix:
  "initialsOf ascii_toUpperCase example_pinyin example_user = js ''ZS''" "dateStr example_date = js ''20240315''"
  by (simp_all add: initialsOf_def example_pinyin_def example_user_def ascii_toUpperCase_def
        dateStr_def example_date_def String_nat.simps padStart_def digit_char_def js_def Let_def)

lemma example_sequences:
  "padStart (String_nat (Suc 0)) 3 (js ''0'') = js ''001''"
  "padStart (String_nat (Suc (Suc 0))) 3 (js ''0'') = js ''002''"
  "startsWith (js ''ZS20240315001'') (js ''ZS20240315'')"
  by (simp_all add: String_nat.simps padStart_def digit_char_def startsWith_def js_def
        replicate_2)

lemma example_generate:
  "generateReimbursementId ascii_toUpperCase example_pinyin example_date example_user [] = js ''ZS20240315001''"
  "generateReimbursementId ascii_toUpperCase example_pinyin example_date example_user [example_item] = js ''ZS20240315002''"
proof -
  show "generateReimbursementId ascii_toUpperCase example_pinyin example_date example_user [] = js ''ZS20240315001''"
    by (simp add: generateReimbursementId_def Let_def example_prefix todayUserItems_def
          example_sequences)
  have "length (todayUserItems (js ''ZS20240315'') [example_item]) = Suc 0"
    by (simp add: todayUserItems_def example_item_fields example_sequences)
  then show "generateReimbursementId ascii_toUpperCase example_pinyin example_date example_user [example_item] =
      (js ''ZS20240315002'')"
    by (simp add: generateReimbursementId_def Let_def example_prefix example_sequences)
qed

lemma same_candidate_dup: "findDuplicate same_candidate None [example_item] = Some example_item"
  by (simp add: findDuplicate_def Let_def candidate_fields normalized_strings selfId_def
        example_item_fields)

lemma wide_space_fields:
  "id' wide_space_item = js ''c1''" "orderId wide_space_item = js ''ORD100'' @ [0x3000]"
  "itemReason wide_space_item = js ''principal''"
  by (simp_all add: wide_space_item_def example_item_fields)

lemma wide_space_dup: "findDuplicate same_candidate None [wide_space_item] = Some wide_space_item"
  by (simp add: findDuplicate_def Let_def candidate_fields normalized_strings selfId_def
        wide_space_fields)

lemma other_candidate_dup: "findDuplicate other_candidate None [example_item] = None"
  by (simp add: findDuplicate_def Let_def candidate_fields normalized_strings selfId_def
        example_item_fields)

lemma lower_candidate_dup: "findDuplicate lower_candidate None [example_item] = None"
  by (simp add: findDuplicate_def Let_def candidate_fields normalized_strings selfId_def
        example_item_fields)

lemma same_candidate_submit:
  "handleSubmit ascii_toUpperCase example_pinyin example_date [] example_user [example_item] None True same_candidate
     = Inl (DuplicateClaim (js ''ORD100'') (js ''principal''))"
  by (simp add: handleSubmit_def Let_def missingFields_def same_candidate_dup candidate_fields)

lemma other_candidate_submit:
  "handleSubmit ascii_toUpperCase example_pinyin example_date [] example_user [example_item] None True other_candidate
     = Inr (CallOnSubmit (js ''ZS20240315002''))"
  by (simp add: handleSubmit_def Let_def missingFields_def other_candidate_dup example_generate)

lemma lower_candidate_submit:
  "handleSubmit ascii_toUpperCase example_pinyin example_date [] example_user [example_item] None True lower_candidate
     = Inr (CallOnSubmit (js ''ZS20240315002''))"
  by (simp add: handleSubmit_def Let_def missingFields_def lower_candidate_dup example_generate)

lemma lower_candidate_quick:
  "submitQuickAdd ascii_toUpperCase example_pinyin example_date example_user [example_item] lower_candidate
     = Inr (CallOnSubmit (js ''ZS20240315002''))"
proof -
  have "truthy (fd_storeName lower_candidate)" "truthy (fd_orderId lower_candidate)"
    "truthy (fd_companySKU lower_candidate)"
    by (simp_all add: lower_candidate_def same_candidate_def)
  then show ?thesis
    by (simp add: submitQuickAdd_def Let_def candidate_fields normalized_strings
          example_item_fields example_generate)
qed

lemma other_candidate_quick:
  "submitQuickAdd ascii_toUpperCase example_pinyin example_date example_user [example_item]
     other_candidate = Inr (CallOnSubmit (js ''ZS20240315002''))"
proof -
  have "truthy (fd_storeName other_candidate)" "truthy (fd_orderId other_candidate)"
    "truthy (fd_companySKU other_candidate)"
    by (simp_all add: other_candidate_def same_candidate_def)
  then show ?thesis
    by (simp add: submitQuickAdd_def Let_def candidate_fields normalized_strings
          example_item_fields example_generate)
qed

lemma lower_same: "same_pair_ignoring_case lower_candidate example_item"
proof -
  have "ascii_toUpperCase (js ''ORD100'') = ascii_toUpperCase (js ''ord100'')"
    by (simp add: ascii_toUpperCase_def js_def)
  then show ?thesis
    by (simp add: same_pair_ignoring_case_def normalize_str_trimmed[symmetric] candidate_fields
          normalized_strings example_item_fields)
qed

lemma blank_reason_fields:
  "autoId blank_reason_item = js ''ZS20240315001''" "orderId blank_reason_item = js ''ORD100''"
  "itemReason blank_reason_item = []"
  "normalize_str (fd_orderId blank_reason_candidate) = js ''ORD100''"
  "normalize_str (fd_itemReason blank_reason_candidate) = []"
  "truthy (fd_storeName blank_reason_candidate)" "truthy (fd_orderId blank_reason_candidate)"
  "truthy (fd_companySKU blank_reason_candidate)"
proof -
  have "normalize_str None = []" by (simp add: normalize_str_def trim_def)
  then show
    "autoId blank_reason_item = js ''ZS20240315001''" "orderId blank_reason_item = js ''ORD100''"
    "itemReason blank_reason_item = []"
    "normalize_str (fd_orderId blank_reason_candidate) = js ''ORD100''"
    "normalize_str (fd_itemReason blank_reason_candidate) = []"
    "truthy (fd_storeName blank_reason_candidate)" "truthy (fd_orderId blank_reason_candidate)"
    "truthy (fd_companySKU blank_reason_candidate)"
    by (simp_all add: blank_reason_item_def blank_reason_candidate_def same_candidate_def
          example_item_fields normalized_strings)
qed

lemma blank_reason_generate:
  "generateReimbursementId ascii_toUpperCase example_pinyin example_date example_user [blank_reason_item] =
     (js ''ZS20240315002'')"
proof -
  have "length (todayUserItems (js ''ZS20240315'') [blank_reason_item]) = Suc 0"
    by (simp add: todayUserItems_def blank_reason_fields example_sequences)
  then show ?thesis
    by (simp add: generateReimbursementId_def Let_def example_prefix example_sequences)
qed

lemma blank_reason_submit:
  "handleSubmit ascii_toUpperCase example_pinyin example_date [] example_user [blank_reason_item] None True
     blank_reason_candidate = Inr (CallOnSubmit (js ''ZS20240315002''))"
  by (simp add: handleSubmit_def Let_def missingFields_def findDuplicate_def blank_reason_fields
        blank_reason_generate)

lemma blank_reason_quick:
  "submitQuickAdd ascii_toUpperCase example_pinyin example_date example_user [blank_reason_item]
     blank_reason_candidate = Inr (CallOnSubmit (js ''ZS20240315002''))"
  by (simp add: submitQuickAdd_def Let_def blank_reason_fields blank_reason_generate)

lemma blank_reason_same: "same_pair_ignoring_case blank_reason_candidate blank_reason_item"
proof -
  have "normalize_str (Some []) = []" by (simp add: normalize_str_def trim_def)
  then show ?thesis
    by (simp add: same_pair_ignoring_case_def normalize_str_trimmed[symmetric]
          blank_reason_fields normalized_strings)
qed

section \<open>Submission: validation and duplicate check\<close>










lemma find_None_set: "(find P xs = None) = (\<forall>x\<in>set xs. \<not> P x)"
  by (induction xs) auto

lemma findDuplicate_None_iff:
  "(findDuplicate formData initialData items = None) =
   (normalize_str (fd_orderId formData) = [] \<or> normalize_str (fd_itemReason formData) = [] \<or>
    (\<forall>i\<in>set items. \<not> (id' i \<noteq> selfId initialData \<and> same_pair formData i)))"
  unfolding findDuplicate_def Let_def same_pair_def
  by (simp add: find_None_set)

lemma selfId_None: "selfId None = []"
  by (simp add: selfId_def)

lemma selfId_Some: "selfId (Some d) = id' d"
  by (simp add: selfId_def)

lemma normalize_str_Some: "normalize_str (Some s) = trim s"
  by (simp add: normalize_str_def)

lemma normalize_str_None: "normalize_str None = []"
  by (simp add: normalize_str_def trim_def)

lemma trim_tail:
  "dropWhile is_ws s = trim s @ rev (takeWhile is_ws (rev (dropWhile is_ws s)))"
proof -
  let ?m = "dropWhile is_ws s"
  have "rev (dropWhile is_ws (rev ?m)) @ rev (takeWhile is_ws (rev ?m)) =
          rev (takeWhile is_ws (rev ?m) @ dropWhile is_ws (rev ?m))"
    by (simp only: rev_append)
  also have "\<dots> = ?m"
    by (simp only: takeWhile_dropWhile_id rev_rev_ident)
  finally show ?thesis
    by (simp only: trim_def)
qed

lemma trim_decomposition:
  "\<exists>l r. s = l @ trim s @ r \<and> (\<forall>c\<in>set l. is_ws c) \<and> (\<forall>c\<in>set r. is_ws c)"
proof -
  let ?m = "dropWhile is_ws s"
  let ?r = "rev (takeWhile is_ws (rev ?m))"
  have "s = takeWhile is_ws s @ ?m" by simp
  also have "?m = trim s @ ?r" by (rule trim_tail)
  finally have a: "s = takeWhile is_ws s @ trim s @ ?r" .
  have c: "\<forall>c\<in>set (takeWhile is_ws s). is_ws c"
    by (auto dest: set_takeWhileD)
  have d: "\<forall>c\<in>set ?r. is_ws c"
    by (auto dest: set_takeWhileD)
  from a c d show ?thesis by blast
qed

lemma trim_ends:
  assumes "trim s \<noteq> []"
  shows "\<not> is_ws (hd (trim s)) \<and> \<not> is_ws (last (trim s))"
proof -
  let ?m = "dropWhile is_ws s"
  let ?d = "dropWhile is_ws (rev ?m)"
  from assms have d: "?d \<noteq> []" by (simp add: trim_def)
  have m: "?m \<noteq> []"
  proof
    assume "?m = []"
    then have "?d = []" by (simp only: rev.simps dropWhile.simps)
    with d show False by blast
  qed
  have "last (trim s) = hd ?d"
    using d by (simp add: trim_def last_rev)
  moreover have "\<not> is_ws (hd ?d)"
    using d by (rule hd_dropWhile)
  ultimately have l: "\<not> is_ws (last (trim s))" by simp
  have "hd ?m = hd (trim s @ rev (takeWhile is_ws (rev ?m)))"
    by (rule arg_cong[OF trim_tail])
  with assms have "hd ?m = hd (trim s)" by simp
  moreover have "\<not> is_ws (hd ?m)"
    using m by (rule hd_dropWhile)
  ultimately have "\<not> is_ws (hd (trim s))" by simp
  with l show ?thesis by blast
qed

lemma is_ws_code_units:
  "is_ws c \<longleftrightarrow>
     c = 0x09 \<or> c = 0x0A \<or> c = 0x0B \<or> c = 0x0C \<or> c = 0x0D \<or> c = 0x20 \<or> c = 0xA0 \<or>
     c = 0x1680 \<or> (0x2000 \<le> c \<and> c \<le> 0x200A) \<or> c = 0x2028 \<or> c = 0x2029 \<or> c = 0x202F \<or>
     c = 0x205F \<or> c = 0x3000 \<or> c = 0xFEFF"
  unfolding is_ws_def by auto

lemma handleSubmit_duplicate:
  "(handleSubmit toUpperCase pinyin now formConfig currentUser items initialData hasOnUpdate formData =
      Inl (DuplicateClaim a b)) =
   (missingFields formConfig formData = [] \<and> findDuplicate formData initialData items \<noteq> None \<and>
    a = normalize_str (fd_orderId formData) \<and> b = normalize_str (fd_itemReason formData))"
proof (cases "missingFields formConfig formData = []")
  case False
  then show ?thesis by (simp add: handleSubmit_def Let_def)
next
  case True
  show ?thesis
  proof (cases "findDuplicate formData initialData items")
    case None
    with True show ?thesis by (simp add: handleSubmit_def Let_def)
  next
    case (Some d)
    with True show ?thesis by (auto simp: handleSubmit_def Let_def)
  qed
qed

lemma handleSubmit_accepts:
  assumes "handleSubmit toUpperCase pinyin now formConfig currentUser items initialData hasOnUpdate formData
             = Inr act"
  shows "findDuplicate formData initialData items = None"
proof (cases "findDuplicate formData initialData items")
  case None
  then show ?thesis .
next
  case (Some d)
  have "\<exists>e. handleSubmit toUpperCase pinyin now formConfig currentUser items initialData hasOnUpdate formData
          = Inl e"
    using Some by (simp add: handleSubmit_def Let_def)
  with assms show ?thesis by simp
qed

lemma submitQuickAdd_accepts:
  assumes "submitQuickAdd toUpperCase pinyin now currentUser items newItem = Inr act"
      and "normalize_str (fd_orderId newItem) \<noteq> []"
      and "normalize_str (fd_itemReason newItem) \<noteq> []"
  shows "\<forall>i\<in>set items. \<not> same_pair newItem i"
proof -
  let ?P = "\<lambda>i. normalize_str (Some (orderId i)) = normalize_str (fd_orderId newItem) \<and>
                 normalize_str (Some (itemReason i)) = normalize_str (fd_itemReason newItem)"
  have "find ?P items = None"
  proof (cases "find ?P items")
    case None
    then show ?thesis .
  next
    case (Some d)
    have "\<exists>e. submitQuickAdd toUpperCase pinyin now currentUser items newItem = Inl e"
      using Some assms(2,3) by (simp add: submitQuickAdd_def Let_def)
    with assms(1) show ?thesis by simp
  qed
  then show ?thesis by (simp add: find_None_set same_pair_def)
qed

text \<open>
  C3. The duplicate check finds a claim if and only if the candidate's trimmed order id and
  trimmed expense attribute are both non-empty and some claim of the list, whose id differs
  from the id of the claim being edited, has the same trimmed order id and the same trimmed
  expense attribute, compared as they are (no case folding). The submit handler rejects
  with the duplicate error, carrying the two trimmed values, exactly when validation
  passed and the check found a claim. A candidate whose trimmed order id or trimmed expense
  attribute is empty is never found to be a duplicate. The id to exclude is the id of the
  claim being edited, and the empty string when a new claim is submitted; no claim of the
  list is excluded then, as long as every claim has a non-empty id. Trimming is
  \<open>String.prototype.trim\<close>: the trimmed string is what is left of the string after a run
  of white space at its start and a run of white space at its end are taken away, and it
  neither starts nor ends with white space; white space is the code units that ECMAScript
  calls WhiteSpace or LineTerminator (TAB, LF, VT, FF, CR, SP, NBSP, U+1680, U+2000 to
  U+200A, U+2028, U+2029, U+202F, U+205F, U+3000, U+FEFF).
\<close>

theorem duplicate_guard_iff:
  "((findDuplicate formData initialData items \<noteq> None) \<longleftrightarrow>
      (normalize_str (fd_orderId formData) \<noteq> [] \<and> normalize_str (fd_itemReason formData) \<noteq> [] \<and>
       (\<exists>i\<in>set items. id' i \<noteq> selfId initialData \<and>
          normalize_str (Some (orderId i)) = normalize_str (fd_orderId formData) \<and>
          normalize_str (Some (itemReason i)) = normalize_str (fd_itemReason formData)))) \<and>
   ((handleSubmit toUpperCase pinyin now formConfig currentUser items initialData hasOnUpdate formData =
       Inl (DuplicateClaim a b)) \<longleftrightarrow>
      (missingFields formConfig formData = [] \<and> findDuplicate formData initialData items \<noteq> None \<and>
       a = normalize_str (fd_orderId formData) \<and> b = normalize_str (fd_itemReason formData))) \<and>
   (normalize_str (fd_orderId formData) = [] \<or> normalize_str (fd_itemReason formData) = [] \<longrightarrow>
      findDuplicate formData initialData items = None) \<and>
   ((\<forall>i\<in>set items. id' i \<noteq> []) \<longrightarrow>
      ((findDuplicate formData None items \<noteq> None) \<longleftrightarrow>
         (normalize_str (fd_orderId formData) \<noteq> [] \<and>
          normalize_str (fd_itemReason formData) \<noteq> [] \<and>
          (\<exists>i\<in>set items.
             normalize_str (Some (orderId i)) = normalize_str (fd_orderId formData) \<and>
             normalize_str (Some (itemReason i)) = normalize_str (fd_itemReason formData))))) \<and>
   selfId (Some d) = id' d \<and> selfId None = [] \<and>
   normalize_str (Some s) = trim s \<and> normalize_str None = [] \<and>
   (\<exists>l r. s = l @ trim s @ r \<and> (\<forall>c\<in>set l. is_ws c) \<and> (\<forall>c\<in>set r. is_ws c)) \<and>
   (trim s \<noteq> [] \<longrightarrow> \<not> is_ws (hd (trim s)) \<and> \<not> is_ws (last (trim s))) \<and>
   (is_ws c \<longleftrightarrow>
     c = 0x09 \<or> c = 0x0A \<or> c = 0x0B \<or> c = 0x0C \<or> c = 0x0D \<or> c = 0x20 \<or> c = 0xA0 \<or>
     c = 0x1680 \<or> (0x2000 \<le> c \<and> c \<le> 0x200A) \<or> c = 0x2028 \<or> c = 0x2029 \<or> c = 0x202F \<or>
     c = 0x205F \<or> c = 0x3000 \<or> c = 0xFEFF)"
proof -
  have 1: "(findDuplicate formData initialData items \<noteq> None) \<longleftrightarrow>
      (normalize_str (fd_orderId formData) \<noteq> [] \<and> normalize_str (fd_itemReason formData) \<noteq> [] \<and>
       (\<exists>i\<in>set items. id' i \<noteq> selfId initialData \<and>
          normalize_str (Some (orderId i)) = normalize_str (fd_orderId formData) \<and>
          normalize_str (Some (itemReason i)) = normalize_str (fd_itemReason formData)))"
    unfolding findDuplicate_None_iff same_pair_def by blast
  have 3: "normalize_str (fd_orderId formData) = [] \<or> normalize_str (fd_itemReason formData) = [] \<longrightarrow>
      findDuplicate formData initialData items = None"
    unfolding findDuplicate_None_iff by blast
  have 4: "(\<forall>i\<in>set items. id' i \<noteq> []) \<longrightarrow>
      ((findDuplicate formData None items \<noteq> None) \<longleftrightarrow>
         (normalize_str (fd_orderId formData) \<noteq> [] \<and>
          normalize_str (fd_itemReason formData) \<noteq> [] \<and>
          (\<exists>i\<in>set items.
             normalize_str (Some (orderId i)) = normalize_str (fd_orderId formData) \<and>
             normalize_str (Some (itemReason i)) = normalize_str (fd_itemReason formData))))"
    unfolding findDuplicate_None_iff same_pair_def selfId_None by blast
  have 5: "trim s \<noteq> [] \<longrightarrow> \<not> is_ws (hd (trim s)) \<and> \<not> is_ws (last (trim s))"
    using trim_ends[of s] by blast
  from 1 handleSubmit_duplicate[of toUpperCase pinyin now formConfig currentUser items initialData
      hasOnUpdate formData a b] 3 4 selfId_Some[of d] selfId_None normalize_str_Some[of s]
    normalize_str_None trim_decomposition[of s] 5 is_ws_code_units[of c]
  show ?thesis by (intro conjI)
qed


theorem duplicate_guard_iff_witness:
  "findDuplicate same_candidate None [example_item] \<noteq> None \<and>
   handleSubmit ascii_toUpperCase example_pinyin example_date [] example_user [example_item] None
     True same_candidate = Inl (DuplicateClaim (js ''ORD100'') (js ''principal'')) \<and>
   findDuplicate same_candidate None [wide_space_item] \<noteq> None \<and>
   normalize_str (Some (js ''ORD100'' @ [0x3000])) = js ''ORD100'' \<and>
   normalize_str (Some (js '' ORD100 '')) = js ''ORD100''"
proof -
  have rhs: "normalize_str (fd_orderId same_candidate) \<noteq> [] \<and>
      normalize_str (fd_itemReason same_candidate) \<noteq> [] \<and>
      (\<exists>i\<in>set [example_item]. id' i \<noteq> selfId None \<and>
          normalize_str (Some (orderId i)) = normalize_str (fd_orderId same_candidate) \<and>
          normalize_str (Some (itemReason i)) = normalize_str (fd_itemReason same_candidate))"
    by (simp add: candidate_fields normalized_strings example_item_fields selfId_def)
  have wide: "normalize_str (fd_orderId same_candidate) \<noteq> [] \<and>
      normalize_str (fd_itemReason same_candidate) \<noteq> [] \<and>
      (\<exists>i\<in>set [wide_space_item]. id' i \<noteq> selfId None \<and>
          normalize_str (Some (orderId i)) = normalize_str (fd_orderId same_candidate) \<and>
          normalize_str (Some (itemReason i)) = normalize_str (fd_itemReason same_candidate))"
    by (simp add: candidate_fields normalized_strings wide_space_fields selfId_def)
  have m: "missingFields [] same_candidate = []"
    by (simp add: missingFields_def)
  from duplicate_guard_iff[where formData=same_candidate and initialData=None
      and items="[example_item]" and toUpperCase=ascii_toUpperCase and pinyin=example_pinyin
      and now=example_date
      and formConfig="[]" and currentUser=example_user and hasOnUpdate=True
      and a="(js ''ORD100'')" and b="(js ''principal'')" and d=example_item
      and s="(js ''ORD100'')" and c=32] rhs
  have found: "findDuplicate same_candidate None [example_item] \<noteq> None"
    by blast
  from duplicate_guard_iff[where formData=same_candidate and initialData=None
      and items="[wide_space_item]" and toUpperCase=ascii_toUpperCase and pinyin=example_pinyin
      and now=example_date
      and formConfig="[]" and currentUser=example_user and hasOnUpdate=True
      and a="(js ''ORD100'')" and b="(js ''principal'')" and d=example_item
      and s="(js ''ORD100'')" and c=32] wide
  have found_wide: "findDuplicate same_candidate None [wide_space_item] \<noteq> None"
    by blast
  from duplicate_guard_iff[where formData=same_candidate and initialData=None
      and items="[example_item]" and toUpperCase=ascii_toUpperCase and pinyin=example_pinyin
      and now=example_date
      and formConfig="[]" and currentUser=example_user and hasOnUpdate=True
      and a="(js ''ORD100'')" and b="(js ''principal'')" and d=example_item
      and s="(js ''ORD100'')" and c=32]
    found m candidate_fields(1,2)
  have submit: "handleSubmit ascii_toUpperCase example_pinyin example_date [] example_user
          [example_item] None True same_candidate =
          Inl (DuplicateClaim (js ''ORD100'') (js ''principal''))"
    by simp
  from found submit found_wide normalized_strings(6) normalized_strings(2)
  show ?thesis by (intro conjI)
qed

text \<open>
  C5, as the code has it. When the submit handler or the quick-add handler accepts a
  candidate whose trimmed order id and trimmed expense attribute are both non-empty, no
  claim of the list it was checked against (for the submit handler: none whose id differs
  from the id of the claim being edited) has the same trimmed order id together with the
  same trimmed expense attribute, compared exactly. Trimming is \<open>String.prototype.trim\<close>,
  and a field without a value counts as the empty string.
\<close>

theorem accepted_claim_has_no_trimmed_duplicate:
  "(handleSubmit toUpperCase pinyin now formConfig currentUser items initialData hasOnUpdate
      formData = Inr act
      \<and> trimmed (fd_orderId formData) \<noteq> [] \<and> trimmed (fd_itemReason formData) \<noteq> []
    \<longrightarrow> (\<forall>i\<in>set items. id' i \<noteq> selfId initialData \<longrightarrow>
           \<not> (trimmed (Some (orderId i)) = trimmed (fd_orderId formData) \<and>
              trimmed (Some (itemReason i)) = trimmed (fd_itemReason formData)))) \<and>
   (submitQuickAdd toUpperCase pinyin now currentUser items newItem = Inr act'
      \<and> trimmed (fd_orderId newItem) \<noteq> [] \<and> trimmed (fd_itemReason newItem) \<noteq> []
    \<longrightarrow> (\<forall>i\<in>set items.
           \<not> (trimmed (Some (orderId i)) = trimmed (fd_orderId newItem) \<and>
              trimmed (Some (itemReason i)) = trimmed (fd_itemReason newItem)))) \<and>
   trimmed (Some s) = trim s \<and> trimmed None = []"
proof -
  have a: "handleSubmit toUpperCase pinyin now formConfig currentUser items initialData
             hasOnUpdate formData = Inr act
      \<and> trimmed (fd_orderId formData) \<noteq> [] \<and> trimmed (fd_itemReason formData) \<noteq> []
    \<longrightarrow> (\<forall>i\<in>set items. id' i \<noteq> selfId initialData \<longrightarrow>
           \<not> (trimmed (Some (orderId i)) = trimmed (fd_orderId formData) \<and>
              trimmed (Some (itemReason i)) = trimmed (fd_itemReason formData)))"
    using handleSubmit_accepts[of toUpperCase pinyin now formConfig currentUser items initialData
        hasOnUpdate formData act]
    unfolding findDuplicate_None_iff same_pair_def normalize_str_trimmed by blast
  have b: "submitQuickAdd toUpperCase pinyin now currentUser items newItem = Inr act'
      \<and> trimmed (fd_orderId newItem) \<noteq> [] \<and> trimmed (fd_itemReason newItem) \<noteq> []
    \<longrightarrow> (\<forall>i\<in>set items.
           \<not> (trimmed (Some (orderId i)) = trimmed (fd_orderId newItem) \<and>
              trimmed (Some (itemReason i)) = trimmed (fd_itemReason newItem)))"
    using submitQuickAdd_accepts[of toUpperCase pinyin now currentUser items newItem act']
    unfolding same_pair_def normalize_str_trimmed by blast
  have c: "trimmed (Some s) = trim s" by (simp add: trimmed_def)
  have d: "trimmed None = []" by (simp add: trimmed_def)
  from a b c d show ?thesis by (intro conjI)
qed

theorem accepted_claim_has_no_trimmed_duplicate_witness:
  "handleSubmit ascii_toUpperCase example_pinyin example_date [] example_user [example_item] None
     True other_candidate = Inr (CallOnSubmit (js ''ZS20240315002'')) \<and>
   submitQuickAdd ascii_toUpperCase example_pinyin example_date example_user [example_item]
     other_candidate = Inr (CallOnSubmit (js ''ZS20240315002'')) \<and>
   \<not> (trimmed (Some (orderId example_item)) = trimmed (fd_orderId other_candidate) \<and>
      trimmed (Some (itemReason example_item)) = trimmed (fd_itemReason other_candidate)) \<and>
   trimmed (fd_orderId other_candidate) = js ''ORD100'' \<and>
   trimmed (fd_itemReason other_candidate) = js ''commission'' \<and>
   trimmed (Some (itemReason example_item)) = js ''principal''"
proof -
  have v: "trimmed (fd_orderId other_candidate) = js ''ORD100''"
    "trimmed (fd_itemReason other_candidate) = js ''commission''"
    "trimmed (Some (itemReason example_item)) = js ''principal''"
    by (simp_all add: normalize_str_trimmed[symmetric] candidate_fields normalized_strings
          example_item_fields)
  have ne: "trimmed (fd_orderId other_candidate) \<noteq> []"
    "trimmed (fd_itemReason other_candidate) \<noteq> []"
    by (simp_all add: v)
  have self: "id' example_item \<noteq> selfId None"
    by (simp add: example_item_fields selfId_def)
  from accepted_claim_has_no_trimmed_duplicate[where toUpperCase=ascii_toUpperCase
      and pinyin=example_pinyin and now=example_date
      and formConfig="[]" and currentUser=example_user and items="[example_item]"
      and initialData=None and hasOnUpdate=True and formData=other_candidate
      and act="CallOnSubmit (js ''ZS20240315002'')" and newItem=other_candidate
      and act'="CallOnSubmit (js ''ZS20240315002'')" and s="[]"]
    other_candidate_submit ne
  have "\<forall>i\<in>set [example_item]. id' i \<noteq> selfId None \<longrightarrow>
           \<not> (trimmed (Some (orderId i)) = trimmed (fd_orderId other_candidate) \<and>
              trimmed (Some (itemReason i)) = trimmed (fd_itemReason other_candidate))"
    by blast
  with self have n: "\<not> (trimmed (Some (orderId example_item)) = trimmed (fd_orderId other_candidate) \<and>
      trimmed (Some (itemReason example_item)) = trimmed (fd_itemReason other_candidate))"
    by simp
  from accepted_claim_has_no_trimmed_duplicate[where toUpperCase=ascii_toUpperCase
      and pinyin=example_pinyin and now=example_date
      and formConfig="[]" and currentUser=example_user and items="[example_item]"
      and initialData=None and hasOnUpdate=True and formData=other_candidate
      and act="CallOnSubmit (js ''ZS20240315002'')" and newItem=other_candidate
      and act'="CallOnSubmit (js ''ZS20240315002'')" and s="[]"]
    other_candidate_quick ne
  have "\<forall>i\<in>set [example_item].
           \<not> (trimmed (Some (orderId i)) = trimmed (fd_orderId other_candidate) \<and>
              trimmed (Some (itemReason i)) = trimmed (fd_itemReason other_candidate))"
    by blast
  from other_candidate_submit other_candidate_quick n v show ?thesis by (intro conjI)
qed

text \<open>
  C5 as stated fails. The comparison folds no case: with a claim for order "ORD100" and
  attribute "principal" in the list, both handlers accept a new candidate for order
  "ord100" with the same attribute, although the two pairs are equal up to case and
  surrounding white space. And a blank field is never compared: with a claim for order
  "ORD100" without attribute in the list, both handlers accept a new candidate for the
  same order without attribute.
\<close>

theorem case_variant_duplicate_accepted_counterexample:
  "handleSubmit ascii_toUpperCase example_pinyin example_date [] example_user [example_item] None True lower_candidate
     = Inr (CallOnSubmit (js ''ZS20240315002'')) \<and>
   submitQuickAdd ascii_toUpperCase example_pinyin example_date example_user [example_item] lower_candidate
     = Inr (CallOnSubmit (js ''ZS20240315002'')) \<and>
   same_pair_ignoring_case lower_candidate example_item \<and>
   handleSubmit ascii_toUpperCase example_pinyin example_date [] example_user [blank_reason_item] None True
     blank_reason_candidate = Inr (CallOnSubmit (js ''ZS20240315002'')) \<and>
   submitQuickAdd ascii_toUpperCase example_pinyin example_date example_user [blank_reason_item]
     blank_reason_candidate = Inr (CallOnSubmit (js ''ZS20240315002'')) \<and>
   same_pair_ignoring_case blank_reason_candidate blank_reason_item"
  using lower_candidate_submit lower_candidate_quick lower_same
    blank_reason_submit blank_reason_quick blank_reason_same
  by blast

section \<open>Identifier generation\<close>

lemma String_nat_ne: "String_nat n \<noteq> []"
  by (subst String_nat.simps) simp

lemma digit_value: "d < 10 \<Longrightarrow> digit_char d - 48 = d"
  by (simp add: digit_char_def)

lemma decimal_value_snoc:
  "decimal_value (s @ [c]) = 10 * decimal_value s + (c - 48)"
  by (simp add: decimal_value_def)

lemma decimal_value_String_nat: "decimal_value (String_nat n) = n"
proof (induction n rule: String_nat.induct)
  case (1 n)
  show ?case
  proof (cases "n < 10")
    case True
    then show ?thesis
      by (subst String_nat.simps) (simp add: decimal_value_def digit_value)
  next
    case False
    have d: "n mod 10 < 10" by simp
    from False have "String_nat n = String_nat (n div 10) @ [digit_char (n mod 10)]"
      by (subst String_nat.simps) simp
    then show ?thesis
      using "1.IH"[OF False] by (simp add: decimal_value_snoc digit_value[OF d])
  qed
qed

lemma concat_replicate_single: "concat (replicate k [c]) = replicate k c"
  by (induction k) simp_all

lemma padStart_zero: "padStart s n (js ''0'') = replicate (n - length s) 48 @ s"
  by (simp add: padStart_def js_def concat_replicate_single)

lemma decimal_value_zeros: "decimal_value (replicate k 48 @ s) = decimal_value s"
proof -
  have "foldl (\<lambda>a c. 10 * a + (c - 48)) 0 (replicate k (48::nat)) = 0"
    by (induction k) simp_all
  then show ?thesis by (simp add: decimal_value_def)
qed

lemma decimal_value_padStart: "decimal_value (padStart (String_nat n) k (js ''0'')) = n"
  by (simp only: padStart_zero decimal_value_zeros decimal_value_String_nat)

lemma length_String_nat_1: "n < 10 \<Longrightarrow> length (String_nat n) = 1"
  by (subst String_nat.simps) simp

lemma length_String_nat_2: "10 \<le> n \<Longrightarrow> n < 100 \<Longrightarrow> length (String_nat n) = 2"
  by (subst String_nat.simps) (simp add: length_String_nat_1)

lemma length_String_nat_3: "100 \<le> n \<Longrightarrow> n < 1000 \<Longrightarrow> length (String_nat n) = 3"
  by (subst String_nat.simps) (simp add: length_String_nat_2)

lemma length_String_nat_4: "1000 \<le> n \<Longrightarrow> n < 10000 \<Longrightarrow> length (String_nat n) = 4"
  by (subst String_nat.simps) (simp add: length_String_nat_3)

lemma length_pad2: "n < 100 \<Longrightarrow> length (padStart (String_nat n) 2 (js ''0'')) = 2"
proof (cases "n < 10")
  case True
  then show ?thesis by (simp add: padStart_zero length_String_nat_1)
next
  case False
  assume "n < 100"
  with False show ?thesis by (simp add: padStart_zero length_String_nat_2)
qed

lemma length_pad3: "n < 1000 \<Longrightarrow> length (padStart (String_nat n) 3 (js ''0'')) = 3"
proof -
  assume n: "n < 1000"
  consider "n < 10" | "10 \<le> n" "n < 100" | "100 \<le> n" by linarith
  then show ?thesis
  proof cases
    case 1
    then show ?thesis by (simp add: padStart_zero length_String_nat_1)
  next
    case 2
    then show ?thesis by (simp add: padStart_zero length_String_nat_2)
  next
    case 3
    with n show ?thesis by (simp add: padStart_zero length_String_nat_3)
  qed
qed

lemma length_dateStr:
  assumes "1000 \<le> getFullYear now" "getFullYear now < 10000" "getMonth now < 12"
    "getDate now \<le> 31"
  shows "length (dateStr now) = 8"
  using assms by (simp add: dateStr_def Let_def length_String_nat_4 length_pad2)

lemma dateStr_ne: "dateStr now \<noteq> []"
  by (simp add: dateStr_def Let_def String_nat_ne)

lemma startsWith_nonempty: "p \<noteq> [] \<Longrightarrow> startsWith s p \<Longrightarrow> s \<noteq> []"
  by (auto simp: startsWith_def)

lemma todayUserItems_count:
  "prefix \<noteq> [] \<Longrightarrow> length (todayUserItems prefix items) = same_prefix_count prefix items"
proof -
  assume p: "prefix \<noteq> []"
  have "filter (\<lambda>i. autoId i \<noteq> [] \<and> startsWith (autoId i) prefix) items =
        filter (\<lambda>i. startsWith (autoId i) prefix) items"
    by (rule filter_cong) (auto dest: startsWith_nonempty[OF p])
  then show ?thesis by (simp add: todayUserItems_def same_prefix_count_def)
qed

lemma generate_eq:
  "generateReimbursementId toUpperCase pinyin now u items =
     (initialsOf toUpperCase pinyin u @ dateStr now) @
       padStart (String_nat (same_prefix_count (initialsOf toUpperCase pinyin u @ dateStr now) items + 1)) 3
         (js ''0'')"
proof -
  have "initialsOf toUpperCase pinyin u @ dateStr now \<noteq> []" by (simp add: dateStr_ne)
  then show ?thesis
    by (simp add: generateReimbursementId_def Let_def todayUserItems_count)
qed

lemma count_insert:
  "startsWith (autoId extra) prefix \<Longrightarrow>
     same_prefix_count prefix (xs @ extra # ys) = same_prefix_count prefix (xs @ ys) + 1"
  by (simp add: same_prefix_count_def)

text \<open>
  C4. The generated identifier is the prefix, which is the initials followed by the date
  string, followed by the sequence: the decimal digits of one more than the number of
  claims whose generated identifier starts with the prefix, padded with zeros on the left
  to three characters. The sequence denotes exactly that number and has three characters
  while the number is below 1000. With one more claim whose identifier starts with the
  prefix, wherever it stands in the list, the sequence number is one higher. The date
  string is the year followed by the month (counted from 1) and the day, each padded to
  two digits; it has eight characters for a four-digit year. The identifier is a function
  of the user, the transliteration, the date and the claims alone.
\<close>

theorem generated_id_is_prefix_and_sequence:
  "generateReimbursementId toUpperCase pinyin now u items =
     (initialsOf toUpperCase pinyin u @ dateStr now) @
       padStart (String_nat (same_prefix_count (initialsOf toUpperCase pinyin u @ dateStr now) items + 1)) 3
         (js ''0'') \<and>
   decimal_value
     (padStart (String_nat (same_prefix_count (initialsOf toUpperCase pinyin u @ dateStr now) items + 1)) 3
        (js ''0'')) = same_prefix_count (initialsOf toUpperCase pinyin u @ dateStr now) items + 1 \<and>
   (same_prefix_count (initialsOf toUpperCase pinyin u @ dateStr now) items + 1 < 1000 \<longrightarrow>
      length (padStart
        (String_nat (same_prefix_count (initialsOf toUpperCase pinyin u @ dateStr now) items + 1)) 3
        (js ''0'')) = 3) \<and>
   (startsWith (autoId extra) (initialsOf toUpperCase pinyin u @ dateStr now) \<longrightarrow>
      generateReimbursementId toUpperCase pinyin now u (xs @ extra # ys) =
        (initialsOf toUpperCase pinyin u @ dateStr now) @
          padStart (String_nat
            (same_prefix_count (initialsOf toUpperCase pinyin u @ dateStr now) (xs @ ys) + 1 + 1)) 3
            (js ''0'')) \<and>
   dateStr now =
     String_nat (getFullYear now) @ padStart (String_nat (getMonth now + 1)) 2 (js ''0'') @
       padStart (String_nat (getDate now)) 2 (js ''0'') \<and>
   (1000 \<le> getFullYear now \<and> getFullYear now < 10000 \<and> getMonth now < 12 \<and> getDate now \<le> 31
      \<longrightarrow> length (dateStr now) = 8)"
proof -
  let ?prefix = "initialsOf toUpperCase pinyin u @ dateStr now"
  have a: "generateReimbursementId toUpperCase pinyin now u items =
     ?prefix @ padStart (String_nat (same_prefix_count ?prefix items + 1)) 3 (js ''0'')"
    by (rule generate_eq)
  have b: "decimal_value (padStart (String_nat (same_prefix_count ?prefix items + 1)) 3 (js ''0''))
             = same_prefix_count ?prefix items + 1"
    by (rule decimal_value_padStart)
  have c: "same_prefix_count ?prefix items + 1 < 1000 \<longrightarrow>
      length (padStart (String_nat (same_prefix_count ?prefix items + 1)) 3 (js ''0'')) = 3"
    using length_pad3 by blast
  have d: "startsWith (autoId extra) ?prefix \<longrightarrow>
      generateReimbursementId toUpperCase pinyin now u (xs @ extra # ys) =
        ?prefix @ padStart (String_nat (same_prefix_count ?prefix (xs @ ys) + 1 + 1)) 3 (js ''0'')"
    by (simp add: generate_eq[of toUpperCase pinyin now u "xs @ extra # ys"] count_insert)
  have e: "dateStr now =
     String_nat (getFullYear now) @ padStart (String_nat (getMonth now + 1)) 2 (js ''0'') @
       padStart (String_nat (getDate now)) 2 (js ''0'')"
    by (simp add: dateStr_def Let_def)
  have f: "1000 \<le> getFullYear now \<and> getFullYear now < 10000 \<and> getMonth now < 12 \<and>
      getDate now \<le> 31 \<longrightarrow> length (dateStr now) = 8"
    using length_dateStr by blast
  from a b c d e f show ?thesis by (intro conjI)
qed

theorem generated_id_is_prefix_and_sequence_witness:
  "generateReimbursementId ascii_toUpperCase example_pinyin example_date example_user [] = js ''ZS20240315001'' \<and>
   generateReimbursementId ascii_toUpperCase example_pinyin example_date example_user [example_item]
     = js ''ZS20240315002'' \<and>
   length (dateStr example_date) = 8"
proof -
  have sw: "startsWith (autoId example_item)
              (initialsOf ascii_toUpperCase example_pinyin example_user @ dateStr example_date)"
    by (simp add: example_prefix example_item_fields example_sequences)
  have dt: "1000 \<le> getFullYear example_date \<and> getFullYear example_date < 10000 \<and>
      getMonth example_date < 12 \<and> getDate example_date \<le> 31"
    by (simp add: example_date_def)
  note t = generated_id_is_prefix_and_sequence[where toUpperCase=ascii_toUpperCase and pinyin=example_pinyin and now=example_date
      and u=example_user and items="[]" and extra=example_item and xs="[]" and ys="[]"]
  from t have "generateReimbursementId ascii_toUpperCase example_pinyin example_date example_user [] =
      (initialsOf ascii_toUpperCase example_pinyin example_user @ dateStr example_date) @
        padStart (String_nat (same_prefix_count
          (initialsOf ascii_toUpperCase example_pinyin example_user @ dateStr example_date) [] + 1)) 3 (js ''0'')"
    by blast
  then have first: "generateReimbursementId ascii_toUpperCase example_pinyin example_date example_user [] =
      (js ''ZS20240315001'')"
    by (simp add: example_prefix same_prefix_count_def example_sequences)
  from t sw have "generateReimbursementId ascii_toUpperCase example_pinyin example_date example_user
      ([] @ example_item # []) =
      (initialsOf ascii_toUpperCase example_pinyin example_user @ dateStr example_date) @
        padStart (String_nat (same_prefix_count
          (initialsOf ascii_toUpperCase example_pinyin example_user @ dateStr example_date) ([] @ []) + 1 + 1)) 3
          (js ''0'')"
    by blast
  then have second: "generateReimbursementId ascii_toUpperCase example_pinyin example_date example_user
      [example_item] = js ''ZS20240315002''"
    by (simp add: example_prefix same_prefix_count_def example_sequences)
  from t dt have "length (dateStr example_date) = 8"
    by blast
  with first second show ?thesis by blast
qed

lemma initialsOf_array:
  "chineseName u \<noteq> [] \<Longrightarrow> pinyin (chineseName u) = PinyinArray p
     \<Longrightarrow> initialsOf toUpperCase pinyin u = toUpperCase (concat p)"
  by (simp add: initialsOf_def Let_def)

lemma initialsOf_fallback:
  "chineseName u = [] \<or> pinyin (chineseName u) = PinyinThrows \<or>
     pinyin (chineseName u) = PinyinNoArray
     \<Longrightarrow> initialsOf toUpperCase pinyin u = take 5 (toUpperCase (username u))"
  by (auto simp: initialsOf_def Let_def)

text \<open>
  C6, as the code has it. Upper case is what the runtime's \<open>toUpperCase\<close> makes of a
  string, whatever that is. When the user has a display name and the transliteration
  returns an array, the initials are the concatenation of the returned strings, put in
  upper case, with no bound on their number. When the user has no display name, or the
  transliteration throws or returns no array, the initials are the first five code units
  of the login name put in upper case, so at most five. In every case an identifier is
  produced, and it starts with the initials and the date string.
\<close>

theorem initials_by_case:
  "(chineseName u \<noteq> [] \<and> pinyin (chineseName u) = PinyinArray p \<longrightarrow>
      initialsOf toUpperCase pinyin u = toUpperCase (concat p)) \<and>
   (chineseName u = [] \<or> pinyin (chineseName u) = PinyinThrows \<or>
    pinyin (chineseName u) = PinyinNoArray \<longrightarrow>
      initialsOf toUpperCase pinyin u = take 5 (toUpperCase (username u)) \<and>
      length (initialsOf toUpperCase pinyin u) \<le> 5) \<and>
   (\<exists>seq. generateReimbursementId toUpperCase pinyin now u items =
            initialsOf toUpperCase pinyin u @ dateStr now @ seq \<and> seq \<noteq> [])"
proof -
  have a: "chineseName u \<noteq> [] \<and> pinyin (chineseName u) = PinyinArray p \<longrightarrow>
      initialsOf toUpperCase pinyin u = toUpperCase (concat p)"
    by (simp add: initialsOf_array)
  have b: "chineseName u = [] \<or> pinyin (chineseName u) = PinyinThrows \<or>
    pinyin (chineseName u) = PinyinNoArray \<longrightarrow>
      initialsOf toUpperCase pinyin u = take 5 (toUpperCase (username u)) \<and>
      length (initialsOf toUpperCase pinyin u) \<le> 5"
  proof
    assume h: "chineseName u = [] \<or> pinyin (chineseName u) = PinyinThrows \<or>
      pinyin (chineseName u) = PinyinNoArray"
    have e: "initialsOf toUpperCase pinyin u = take 5 (toUpperCase (username u))"
      using h by (rule initialsOf_fallback)
    then show "initialsOf toUpperCase pinyin u = take 5 (toUpperCase (username u)) \<and>
      length (initialsOf toUpperCase pinyin u) \<le> 5"
      by simp
  qed
  have "padStart (String_nat (same_prefix_count (initialsOf toUpperCase pinyin u @ dateStr now) items + 1)) 3
          (js ''0'') \<noteq> []"
    by (simp add: padStart_zero String_nat_ne)
  then have c: "\<exists>seq. generateReimbursementId toUpperCase pinyin now u items =
            initialsOf toUpperCase pinyin u @ dateStr now @ seq \<and> seq \<noteq> []"
    by (simp add: generate_eq)
  from a b c show ?thesis by (intro conjI)
qed

lemma fallback_initials: "take 5 (ascii_toUpperCase (username example_user)) = js ''ZHANG''"
  by (simp add: example_user_def ascii_toUpperCase_def js_def)

lemma array_initials: "ascii_toUpperCase (concat [js ''z'', js ''s'']) = js ''ZS''"
  by (simp add: ascii_toUpperCase_def js_def)

theorem initials_by_case_witness:
  "initialsOf ascii_toUpperCase throwing_pinyin example_user = js ''ZHANG'' \<and>
   length (initialsOf ascii_toUpperCase throwing_pinyin example_user) \<le> 5 \<and>
   initialsOf ascii_toUpperCase example_pinyin example_user = js ''ZS''"
proof -
  have h: "chineseName example_user = [] \<or>
      throwing_pinyin (chineseName example_user) = PinyinThrows \<or>
      throwing_pinyin (chineseName example_user) = PinyinNoArray"
    by (simp add: throwing_pinyin_def)
  from initials_by_case[where u=example_user and pinyin=throwing_pinyin and p="[]"
      and toUpperCase=ascii_toUpperCase and now=example_date and items="[]"] h
  have "initialsOf ascii_toUpperCase throwing_pinyin example_user =
          take 5 (ascii_toUpperCase (username example_user)) \<and>
      length (initialsOf ascii_toUpperCase throwing_pinyin example_user) \<le> 5"
    by blast
  then have fallback: "initialsOf ascii_toUpperCase throwing_pinyin example_user = js ''ZHANG'' \<and>
      length (initialsOf ascii_toUpperCase throwing_pinyin example_user) \<le> 5"
    by (simp add: fallback_initials)
  have g: "chineseName example_user \<noteq> [] \<and>
      example_pinyin (chineseName example_user) = PinyinArray [js ''z'', js ''s'']"
    by (simp add: example_user_def example_pinyin_def)
  from initials_by_case[where u=example_user and pinyin=example_pinyin
      and p="[js ''z'', js ''s'']"
      and toUpperCase=ascii_toUpperCase and now=example_date and items="[]"] g
  have "initialsOf ascii_toUpperCase example_pinyin example_user =
          ascii_toUpperCase (concat [js ''z'', js ''s''])"
    by blast
  then have "initialsOf ascii_toUpperCase example_pinyin example_user = js ''ZS''"
    by (simp only: array_initials)
  with fallback show ?thesis by blast
qed

lemma six_initials: "initialsOf ascii_toUpperCase six_name_pinyin six_name_user = js ''CJGLYE''"
  by (simp add: initialsOf_def Let_def six_name_pinyin_def six_name_user_def
        ascii_toUpperCase_def js_def)

text \<open>
  C6 as stated fails: the initials taken from a transliteration are not cut to five
  characters. A display name of six characters gives six initials.
\<close>

theorem initials_longer_than_five_counterexample:
  "initialsOf ascii_toUpperCase six_name_pinyin six_name_user = js ''CJGLYE'' \<and>
   \<not> length (initialsOf ascii_toUpperCase six_name_pinyin six_name_user) \<le> 5 \<and>
   generateReimbursementId ascii_toUpperCase six_name_pinyin example_date six_name_user [] =
     js ''CJGLYE20240315001''"
proof -
  have "generateReimbursementId ascii_toUpperCase six_name_pinyin example_date six_name_user [] =
          js ''CJGLYE20240315001''"
    by (simp add: generateReimbursementId_def Let_def six_initials example_prefix
          todayUserItems_def example_sequences)
  then show ?thesis by (simp add: six_initials)
qed

section \<open>Claim listing\<close>

lemma getReimbursements_down: "getReimbursements (Unreachable e) u = []"
  by (simp add: getReimbursements_def Let_def)

lemma getReimbursements_failing: "getReimbursements (Failing m) u = []"
  by (simp add: getReimbursements_def Let_def)

lemma getReimbursements_table:
  "getReimbursements (Table rows) u =
     map row_claim (take 500 (rev (sort_key row_created_at (scope_rows u rows))))"
  by (simp add: getReimbursements_def Let_def run_query_def scope_rows_def row_claim_def)

lemma newest_first_sorted:
  "sorted_wrt (\<lambda>a b. row_created_at b \<le> row_created_at a) (rev (sort_key row_created_at rows))"
proof -
  have "sorted (map row_created_at (sort_key row_created_at rows))"
    by (rule sorted_sort_key)
  then have "sorted_wrt (\<lambda>a b. row_created_at a \<le> row_created_at b) (sort_key row_created_at rows)"
    by (simp add: sorted_wrt_map)
  then show ?thesis by (simp add: sorted_wrt_rev)
qed

lemma newest_first_mset: "mset (rev (sort_key row_created_at rows)) = mset rows"
  by simp

lemma take_drop_sorted:
  assumes "sorted_wrt P xs"
  shows "\<forall>a\<in>set (take n xs). \<forall>b\<in>set (drop n xs). P a b"
proof -
  from assms have "sorted_wrt P (take n xs @ drop n xs)" by simp
  then show ?thesis unfolding sorted_wrt_append by blast
qed

lemma getReimbursements_length: "length (getReimbursements db u) \<le> 500"
  by (cases db) (simp_all add: getReimbursements_down getReimbursements_failing
      getReimbursements_table)

lemma scope_rows_own:
  "role u \<noteq> role_admin \<Longrightarrow> \<forall>r\<in>set (scope_rows u rows). row_user_id r = u_id u"
  by (simp add: scope_rows_def)

text \<open>
  C10. The listing never has more than 500 claims. When the store cannot be reached or
  answers with an error, the listing is empty and nothing is raised. When the store
  answers with its rows, the listing is made of the first 500 rows of an arrangement of the
  rows in scope (all rows for an administrator, the rows of the requesting user
  otherwise) in which no row is newer than a row before it; so every row left out is at
  most as new as every row listed, and with more than 500 rows in scope exactly 500 are
  listed. The duplicate check and the identifier generator work on this listing: after a
  store error the check finds nothing and the sequence starts again at 001.
\<close>

theorem listing_is_newest_500_or_empty:
  "length (getReimbursements db u) \<le> 500 \<and>
   getReimbursements (Unreachable e) u = [] \<and>
   getReimbursements (Failing m) u = [] \<and>
   (\<exists>ordered.
      mset ordered = mset (scope_rows u rows) \<and>
      sorted_wrt (\<lambda>a b. row_created_at b \<le> row_created_at a) ordered \<and>
      getReimbursements (Table rows) u = map row_claim (take 500 ordered) \<and>
      (\<forall>a\<in>set (take 500 ordered). \<forall>b\<in>set (drop 500 ordered).
         row_created_at b \<le> row_created_at a)) \<and>
   (role u \<noteq> role_admin \<longrightarrow> (\<forall>r\<in>set (scope_rows u rows). row_user_id r = u_id u)) \<and>
   (role u = role_admin \<longrightarrow> scope_rows u rows = rows) \<and>
   (500 < length (scope_rows u rows) \<longrightarrow> length (getReimbursements (Table rows) u) = 500) \<and>
   findDuplicate formData initialData (getReimbursements (Failing m) u) = None \<and>
   generateReimbursementId toUpperCase pinyin now u (getReimbursements (Failing m) u) =
     initialsOf toUpperCase pinyin u @ dateStr now @ js ''001''"
proof -
  let ?ordered = "rev (sort_key row_created_at (scope_rows u rows))"
  have s: "sorted_wrt (\<lambda>a b. row_created_at b \<le> row_created_at a) ?ordered"
    by (rule newest_first_sorted)
  have d: "\<exists>ordered.
      mset ordered = mset (scope_rows u rows) \<and>
      sorted_wrt (\<lambda>a b. row_created_at b \<le> row_created_at a) ordered \<and>
      getReimbursements (Table rows) u = map row_claim (take 500 ordered) \<and>
      (\<forall>a\<in>set (take 500 ordered). \<forall>b\<in>set (drop 500 ordered).
         row_created_at b \<le> row_created_at a)"
    using newest_first_mset[of "scope_rows u rows"] s getReimbursements_table[of rows u]
      take_drop_sorted[OF s, of 500]
    by blast
  have f: "role u = role_admin \<longrightarrow> scope_rows u rows = rows"
    by (simp add: scope_rows_def)
  have g: "500 < length (scope_rows u rows) \<longrightarrow> length (getReimbursements (Table rows) u) = 500"
    by (simp add: getReimbursements_table)
  have h: "findDuplicate formData initialData (getReimbursements (Failing m) u) = None"
    by (simp add: getReimbursements_failing findDuplicate_def Let_def)
  have "padStart (String_nat (Suc 0)) 3 (js ''0'') = js ''001''"
    by (rule example_sequences(1))
  then have i: "generateReimbursementId toUpperCase pinyin now u (getReimbursements (Failing m) u) =
     initialsOf toUpperCase pinyin u @ dateStr now @ js ''001''"
    by (simp add: getReimbursements_failing generateReimbursementId_def Let_def todayUserItems_def)
  have e': "role u \<noteq> role_admin \<longrightarrow> (\<forall>r\<in>set (scope_rows u rows). row_user_id r = u_id u)"
    using scope_rows_own by blast
  from getReimbursements_length[of db u] getReimbursements_down[of e u]
    getReimbursements_failing[of m u] d e' f g h i
  show ?thesis by (intro conjI)
qed

lemma own_listing: "getReimbursements (Table [foreign_row, own_row]) example_user = [row_claim own_row]"
  by (simp add: getReimbursements_table scope_rows_def example_user_def foreign_row_def own_row_def
        sort_key_def)

theorem listing_is_newest_500_or_empty_witness:
  "length (getReimbursements (Table (replicate 501 own_row)) example_admin) = 500 \<and>
   getReimbursements (Failing (js ''down'')) example_user = [] \<and>
   getReimbursements (Table [foreign_row, own_row]) example_user = [row_claim own_row]"
proof -
  note t = listing_is_newest_500_or_empty[where db="Failing (js ''down'')" and u=example_admin
      and e="Error None" and m="(js ''down'')" and rows="replicate 501 own_row"
      and formData=same_candidate and initialData=None and toUpperCase=ascii_toUpperCase and pinyin=example_pinyin
      and now=example_date]
  have adm: "role example_admin = role_admin"
    by (simp add: example_admin_def)
  from t adm have sc: "scope_rows example_admin (replicate 501 own_row) = replicate 501 own_row"
    by blast
  have "500 < length (scope_rows example_admin (replicate 501 own_row))"
    by (simp add: sc)
  with t have full: "length (getReimbursements (Table (replicate 501 own_row)) example_admin) = 500"
    by blast
  from listing_is_newest_500_or_empty[where db="Failing (js ''down'')" and u=example_user
      and e="Error None" and m="(js ''down'')" and rows="[foreign_row, own_row]"
      and formData=same_candidate and initialData=None and toUpperCase=ascii_toUpperCase and pinyin=example_pinyin
      and now=example_date]
  have "getReimbursements (Failing (js ''down'')) example_user = []"
    by blast
  with full own_listing show ?thesis by blast
qed

end
